theory Spec2Isabelle
  imports Main "HOL-Library.Log_Nat"
begin

section \<open>Values\<close>

subsection \<open>Errors\<close>

text \<open>
  Python exceptions are values. \<open>InvalidKeyError\<close> is the name the specification gives to
  the rejection of a key outside \<open>[0, num_keys)\<close>; it is raised only by the parts of the
  system that are modelled from the specification (the command-protocol server and the
  embedded engine). \<open>Blocked\<close> stands for a \<open>dist.recv\<close> on which nothing ever arrives.
\<close>

datatype error =
    NotImplementedError
  | TypeError
  | IndexError
  | RuntimeError
  | AttributeError
  | InvalidKeyError
  | Blocked

definition bindE :: "error + 'a \<Rightarrow> ('a \<Rightarrow> error + 'b) \<Rightarrow> error + 'b" where
  "bindE m f = (case m of Inl e \<Rightarrow> Inl e | Inr x \<Rightarrow> f x)"

subsection \<open>32-bit floats\<close>

text \<open>
  Rows hold \<open>torch.float32\<close> values. A finite float is modelled by the rational number it
  denotes, next to the two infinities and NaN; the sign of zero is not modelled (\<open>-0.0\<close> and
  \<open>0.0\<close> compare equal in torch). Addition is IEEE 754 binary32 addition: the exact sum
  rounded to 24 significant bits, ties to even, with gradual underflow below \<open>2 powi -126\<close> and
  overflow to infinity from \<open>2 powi 128\<close>.
\<close>

datatype f32 = Fin rat | PInf | NInf | NaN

definition floor_log2 :: "rat \<Rightarrow> int" where
  "floor_log2 a =
     (let (p, q) = quotient_of a;
          e = bitlen p - bitlen q
      in if 2 powi e \<le> a then e else e - 1)"

definition round_half_even :: "rat \<Rightarrow> int" where
  "round_half_even n =
     (let f = \<lfloor>n\<rfloor>; d = n - of_int f
      in if d < 1 / 2 then f
         else if 1 / 2 < d then f + 1
         else if even f then f else f + 1)"

definition round32 :: "rat \<Rightarrow> f32" where
  "round32 q =
     (if q = 0 then Fin 0
      else let a = \<bar>q\<bar>;
               e = max (floor_log2 a) (- 126);
               u = 2 powi (e - 23);
               m = of_int (round_half_even (a / u)) * u
           in if 2 powi 128 \<le> m then (if 0 < q then PInf else NInf)
              else Fin (if 0 < q then m else - m))"

fun f32_add :: "f32 \<Rightarrow> f32 \<Rightarrow> f32" where
  "f32_add NaN y = NaN"
| "f32_add x NaN = NaN"
| "f32_add PInf NInf = NaN"
| "f32_add NInf PInf = NaN"
| "f32_add PInf y = PInf"
| "f32_add x PInf = PInf"
| "f32_add NInf y = NInf"
| "f32_add x NInf = NInf"
| "f32_add (Fin x) (Fin y) = round32 (x + y)"

text \<open>
  A Python float is a double: a finite value, an infinity or NaN. Storing one into a float32
  tensor (\<open>t[0] = x\<close>) converts it: torch takes the infinities and NaN as they are, rounds
  a finite value, and refuses a finite value beyond the largest float32 with \<open>RuntimeError\<close>.
\<close>

datatype pyfloat = Finite rat | Infinity | NegInfinity | NotANumber

definition f32_max :: rat where
  "f32_max = 2 powi 128 - 2 powi 104"

definition f32_of_pyfloat :: "pyfloat \<Rightarrow> error + f32" where
  "f32_of_pyfloat x =
     (case x of
        Finite q \<Rightarrow> if q < - f32_max \<or> f32_max < q then Inl RuntimeError else Inr (round32 q)
      | Infinity \<Rightarrow> Inr PInf
      | NegInfinity \<Rightarrow> Inr NInf
      | NotANumber \<Rightarrow> Inr NaN)"

text \<open>The comparison \<open>x == y\<close> of torch: NaN equals nothing, itself included.\<close>

definition f32_eq :: "f32 \<Rightarrow> f32 \<Rightarrow> bool" where
  "f32_eq x y = (x \<noteq> NaN \<and> x = y)"

subsection \<open>Two-dimensional tensors\<close>

text \<open>
  Every float tensor of the source is two-dimensional. The column count is kept next to the
  rows, since a tensor of shape \<open>(0, D)\<close> still has \<open>D\<close> columns. Key tensors
  (\<open>torch.LongTensor\<close>) are lists of integers.
\<close>

record tensor =
  ncols :: nat
  rows :: "f32 list list"

definition nrows :: "tensor \<Rightarrow> nat" where
  "nrows t = length (rows t)"

definition wf_tensor :: "tensor \<Rightarrow> bool" where
  "wf_tensor t = list_all (\<lambda>r. length r = ncols t) (rows t)"

definition full :: "nat \<Rightarrow> nat \<Rightarrow> f32 \<Rightarrow> tensor" where
  "full r c v = \<lparr>ncols = c, rows = replicate r (replicate c v)\<rparr>"

definition zeros :: "nat \<Rightarrow> nat \<Rightarrow> tensor" where
  "zeros r c = full r c (Fin 0)"

definition ones :: "nat \<Rightarrow> nat \<Rightarrow> tensor" where
  "ones r c = full r c (Fin 1)"

text \<open>
  Broadcasting of a two-dimensional value to the shape \<open>(R, C)\<close>: a dimension of size one is
  repeated, any other size has to agree, otherwise torch raises \<open>RuntimeError\<close>.
\<close>

definition expand :: "nat \<Rightarrow> 'a list \<Rightarrow> 'a list" where
  "expand n xs = (case xs of [x] \<Rightarrow> replicate n x | _ \<Rightarrow> xs)"

definition broadcast_to :: "nat \<Rightarrow> nat \<Rightarrow> tensor \<Rightarrow> error + f32 list list" where
  "broadcast_to R C t =
     (if (nrows t = R \<or> nrows t = 1) \<and> (ncols t = C \<or> ncols t = 1)
      then Inr (map (expand C) (expand R (rows t)))
      else Inl RuntimeError)"

subsection \<open>Indexing a tensor by a key tensor\<close>

text \<open>
  \<open>t[keys, :]\<close> follows torch's advanced indexing: an index \<open>k\<close> with \<open>-n \<le> k < 0\<close> counts
  from the end, and an index outside \<open>[-n, n)\<close> raises \<open>IndexError\<close>.
\<close>

definition norm_index :: "nat \<Rightarrow> int \<Rightarrow> error + nat" where
  "norm_index n k =
     (if 0 \<le> k \<and> k < int n then Inr (nat k)
      else if - int n \<le> k \<and> k < 0 then Inr (nat (k + int n))
      else Inl IndexError)"

fun norm_indices :: "nat \<Rightarrow> int list \<Rightarrow> error + nat list" where
  "norm_indices n [] = Inr []"
| "norm_indices n (k # ks) =
     bindE (norm_index n k) (\<lambda>i. bindE (norm_indices n ks) (\<lambda>js. Inr (i # js)))"

text \<open>\<open>t[keys, :]\<close> as an expression: a new tensor holding the selected rows.\<close>

definition getitem :: "tensor \<Rightarrow> int list \<Rightarrow> error + tensor" where
  "getitem t keys =
     bindE (norm_indices (nrows t) keys)
       (\<lambda>js. Inr \<lparr>ncols = ncols t, rows = map (\<lambda>i. rows t ! i) js\<rparr>)"

text \<open>
  \<open>t[keys, :] = v\<close>: the value is broadcast to \<open>(len(keys), ncols)\<close> and written row by
  row in key order, so that of two writes to one row the later one stays.
\<close>

fun put_rows :: "'a list \<Rightarrow> nat list \<Rightarrow> 'a list \<Rightarrow> 'a list" where
  "put_rows tbl (i # js) (v # vs) = put_rows (tbl[i := v]) js vs"
| "put_rows tbl _ _ = tbl"

definition setitem :: "tensor \<Rightarrow> int list \<Rightarrow> tensor \<Rightarrow> error + tensor" where
  "setitem t keys v =
     bindE (broadcast_to (length keys) (ncols t) v)
       (\<lambda>vs. bindE (norm_indices (nrows t) keys)
          (\<lambda>js. Inr (t\<lparr>rows := put_rows (rows t) js vs\<rparr>)))"

text \<open>\<open>t += v\<close>: the value is broadcast to the shape of \<open>t\<close> and added element by element.\<close>

definition add_rows :: "f32 list list \<Rightarrow> f32 list list \<Rightarrow> f32 list list" where
  "add_rows xs ys = map2 (map2 f32_add) xs ys"

definition iadd :: "tensor \<Rightarrow> tensor \<Rightarrow> error + tensor" where
  "iadd t v =
     bindE (broadcast_to (nrows t) (ncols t) v)
       (\<lambda>vs. Inr (t\<lparr>rows := add_rows (rows t) vs\<rparr>))"

text \<open>\<open>t[:, :] = v\<close>: the value is broadcast to the shape of \<open>t\<close> and copied into it.\<close>

definition slice_assign :: "tensor \<Rightarrow> tensor \<Rightarrow> error + tensor" where
  "slice_assign t v =
     bindE (broadcast_to (nrows t) (ncols t) v) (\<lambda>vs. Inr (t\<lparr>rows := vs\<rparr>))"

text \<open>\<open>torch.any(t[0] == 1)\<close> and \<open>t[0, 0].item() == 1\<close>; row or column 0 may be missing.\<close>

definition any_eq_one_row0 :: "tensor \<Rightarrow> error + bool" where
  "any_eq_one_row0 t =
     (case rows t of [] \<Rightarrow> Inl IndexError
      | r # _ \<Rightarrow> Inr (list_ex (\<lambda>x. f32_eq x (Fin 1)) r))"

definition item00_eq_one :: "tensor \<Rightarrow> error + bool" where
  "item00_eq_one t =
     (case rows t of [] \<Rightarrow> Inl IndexError
      | r # _ \<Rightarrow> (case r of [] \<Rightarrow> Inl IndexError | x # _ \<Rightarrow> Inr (f32_eq x (Fin 1))))"

section \<open>The client classes\<close>

subsection \<open>\<open>KgeParameterClient\<close>\<close>

text \<open>
  The configuration is read through \<open>config.get("lookup_embedder.dim")\<close> and through
  \<open>get_optimizer_dim\<close> and \<open>get_num_meta_keys\<close> of module \<open>misc\<close>. The two helpers are
  parameters of the constructors; dimensions and counts are natural numbers. The two worker
  groups serve the barriers only and are left out.
\<close>

record config =
  lookup_embedder_dim :: nat

record kge_client =
  rank :: int
  dim :: nat
  num_meta_keys :: nat

definition KgeParameterClient_init ::
  "(config \<Rightarrow> nat \<Rightarrow> nat) \<Rightarrow> (config \<Rightarrow> nat) \<Rightarrow> config \<Rightarrow> int \<Rightarrow> kge_client" where
  "KgeParameterClient_init get_optimizer_dim get_num_meta_keys cfg rnk =
     (let embedding_dim = lookup_embedder_dim cfg;
          optimizer_dim = get_optimizer_dim cfg embedding_dim
      in \<lparr>rank = rnk,
          dim = embedding_dim + optimizer_dim,
          num_meta_keys = get_num_meta_keys cfg\<rparr>)"

subsection \<open>\<open>SharedParameterClient\<close>: the local-memory backend\<close>

text \<open>
  The client holds the shared table \<open>parameters\<close>; what the source mutates in place is
  returned as the updated client. The calls are the synchronous ones
  (\<open>asynchronous=False\<close>, which no method of this class reads).
\<close>

record shared_client = kge_client +
  parameters :: tensor
  num_keys :: int
  lr_buffer :: "f32 list"
  stop_key :: "int list"
  optim_entity_step_key :: "int list"
  optim_relation_step_key :: "int list"
  entity_lr_key :: "int list"
  relation_lr_key :: "int list"
  stop_value_tensor :: tensor
  optim_entity_step_value_tensor :: tensor
  optim_relation_step_value_tensor :: tensor
  entity_lr_tensor :: tensor
  relation_lr_tensor :: tensor
  meta_key_tensor :: tensor

definition SharedParameterClient_init ::
  "(config \<Rightarrow> nat \<Rightarrow> nat) \<Rightarrow> (config \<Rightarrow> nat) \<Rightarrow> config \<Rightarrow> int \<Rightarrow> tensor
     \<Rightarrow> shared_client" where
  "SharedParameterClient_init get_optimizer_dim get_num_meta_keys cfg rnk params =
     (let base = KgeParameterClient_init get_optimizer_dim get_num_meta_keys cfg rnk;
          n = int (nrows params);
          m = int (num_meta_keys base);
          d = dim base
      in kge_client.extend base
           (shared_client.fields params n [Fin 0]
              [n - m] [n - m + 1] [n - m + 2] [n - m + 3] [n - m + 4]
              (zeros 1 d) (zeros 1 d) (zeros 1 d) (zeros 1 d) (zeros 1 d)
              (zeros (num_meta_keys base) d)))"

text \<open>
  \<open>pull\<close> declares \<open>pull_tensor\<close> without a default: \<open>None\<close> stands for a call that leaves
  the argument out, which Python rejects with \<open>TypeError\<close>. The result is the pair of the
  value returned (the method has no \<open>return\<close>, so always \<open>None\<close>) and the buffer as the
  caller finds it afterwards.
\<close>

definition shared_pull ::
  "shared_client \<Rightarrow> int list \<Rightarrow> tensor option \<Rightarrow> error + (tensor option \<times> tensor)" where
  "shared_pull c keys pull_tensor =
     (case pull_tensor of
        None \<Rightarrow> Inl TypeError
      | Some buf \<Rightarrow>
          bindE (getitem (parameters c) keys)
            (\<lambda>sel. bindE (slice_assign buf sel) (\<lambda>buf'. Inr (None, buf'))))"

definition shared_push :: "shared_client \<Rightarrow> int list \<Rightarrow> tensor \<Rightarrow> error + shared_client" where
  "shared_push c keys push_tensor =
     bindE (getitem (parameters c) keys)
       (\<lambda>sel. bindE (iadd sel push_tensor)
          (\<lambda>sel'. bindE (setitem (parameters c) keys sel')
             (\<lambda>p. Inr (c\<lparr>parameters := p\<rparr>))))"

definition shared_set :: "shared_client \<Rightarrow> int list \<Rightarrow> tensor \<Rightarrow> error + shared_client" where
  "shared_set c keys set_tensor =
     bindE (setitem (parameters c) keys set_tensor) (\<lambda>p. Inr (c\<lparr>parameters := p\<rparr>))"

definition shared_localize :: "shared_client \<Rightarrow> int list \<Rightarrow> error + shared_client" where
  "shared_localize c keys = Inr c"

definition shared_stop :: "shared_client \<Rightarrow> error + shared_client" where
  "shared_stop c = shared_push c (stop_key c) (ones 1 (dim c))"

definition shared_is_stopped :: "shared_client \<Rightarrow> error + (bool \<times> shared_client)" where
  "shared_is_stopped c =
     bindE (shared_pull c (stop_key c) (Some (stop_value_tensor c)))
       (\<lambda>(ret, buf). bindE (any_eq_one_row0 buf)
          (\<lambda>b. Inr (if b then True else False, c\<lparr>stop_value_tensor := buf\<rparr>)))"

subsection \<open>\<open>TorchParameterClient\<close>: the command-protocol backend\<close>

text \<open>
  The methods talk to the server through \<open>dist.send\<close> and \<open>dist.recv\<close>. A method is the
  program of its sends and receives, in source order; what arrives at a \<open>recv\<close> is decided
  by the peer, so the program continues as a function of it.
\<close>

datatype payload = Longs "int list" | Floats tensor | Floats1 "f32 list"

datatype 'a io =
    Return 'a
  | Fail error
  | Send int payload "'a io"
  | Recv int "payload \<Rightarrow> 'a io"

primrec bind_io :: "'a io \<Rightarrow> ('a \<Rightarrow> 'b io) \<Rightarrow> 'b io" where
  "bind_io (Return a) f = f a"
| "bind_io (Fail e) f = Fail e"
| "bind_io (Send dst p k) f = Send dst p (bind_io k f)"
| "bind_io (Recv src k) f = Recv src (\<lambda>p. bind_io (k p) f)"

text \<open>
  \<open>dist.recv(buffer, src)\<close> overwrites the buffer with the tensor that arrives; a message
  of another kind or shape is a \<open>RuntimeError\<close>.
\<close>

definition recv_tensor :: "tensor \<Rightarrow> int \<Rightarrow> (tensor \<Rightarrow> 'a io) \<Rightarrow> 'a io" where
  "recv_tensor buf src k =
     Recv src (\<lambda>p. case p of
        Floats t \<Rightarrow> if nrows t = nrows buf \<and> ncols t = ncols buf then k t else Fail RuntimeError
      | _ \<Rightarrow> Fail RuntimeError)"

text \<open>
  Modelled from the spec: \<open>TORCH_PARAMETER_SERVER_CMDS\<close> of module \<open>parameter_server\<close>,
  which is not among the source files. It is the table of the ten command codes that section
  4.3 of the specification lists; the numbers are left open.
\<close>

record cmds =
  PULL_CMD :: int
  PUSH_CMD :: int
  SET_CMD :: int
  SHUTDOWN_CMD :: int
  STEP_OPTIM_CMD :: int
  GET_OPTIM_STEP_CMD :: int
  GET_ENTITY_LR_CMD :: int
  GET_RELATION_LR_CMD :: int
  SET_ENTITY_LR_CMD :: int
  SET_RELATION_LR_CMD :: int

text \<open>\<open>getattr(TORCH_PARAMETER_SERVER_CMDS, name)\<close> for the names that \<open>get_lr\<close> and
  \<open>set_lr\<close> build.\<close>

definition getattr_cmds :: "cmds \<Rightarrow> string \<Rightarrow> error + int" where
  "getattr_cmds t name =
     (if name = ''GET_ENTITY_LR_CMD'' then Inr (GET_ENTITY_LR_CMD t)
      else if name = ''GET_RELATION_LR_CMD'' then Inr (GET_RELATION_LR_CMD t)
      else if name = ''SET_ENTITY_LR_CMD'' then Inr (SET_ENTITY_LR_CMD t)
      else if name = ''SET_RELATION_LR_CMD'' then Inr (SET_RELATION_LR_CMD t)
      else Inl AttributeError)"

record torch_client = kge_client +
  server_rank :: int
  num_keys :: int
  lr_buffer :: "f32 list"
  stop_key :: "int list"
  stop_value_tensor :: tensor

definition TorchParameterClient_init ::
  "(config \<Rightarrow> nat \<Rightarrow> nat) \<Rightarrow> (config \<Rightarrow> nat) \<Rightarrow> config \<Rightarrow> int \<Rightarrow> int \<Rightarrow> int
     \<Rightarrow> torch_client" where
  "TorchParameterClient_init get_optimizer_dim get_num_meta_keys cfg srv_rank rnk n =
     (let base = KgeParameterClient_init get_optimizer_dim get_num_meta_keys cfg rnk
      in kge_client.extend base
           (torch_client.fields srv_rank n [Fin 0] [n - int (num_meta_keys base)]
              (zeros 1 (dim base))))"

text \<open>
  \<open>pull\<close> has no \<open>return\<close>: the value returned is \<open>None\<close>. The second component is the
  caller's buffer afterwards; a buffer that \<open>pull\<close> allocated itself is a local variable and
  is gone when the method returns.
\<close>

definition torch_pull ::
  "cmds \<Rightarrow> torch_client \<Rightarrow> int list \<Rightarrow> tensor option \<Rightarrow> (tensor option \<times> tensor option) io" where
  "torch_pull t c keys pull_tensor =
     Send (server_rank c) (Longs [PULL_CMD t, int (length keys)])
       (Send (server_rank c) (Longs keys)
          (let buf = (case pull_tensor of
                        None \<Rightarrow> zeros (length keys) (dim c)
                      | Some b \<Rightarrow> b)
           in recv_tensor buf (server_rank c)
                (\<lambda>buf'. Return (None, map_option (\<lambda>b. buf') pull_tensor))))"

definition torch_push :: "cmds \<Rightarrow> torch_client \<Rightarrow> int list \<Rightarrow> tensor \<Rightarrow> unit io" where
  "torch_push t c keys push_tensor =
     Send (server_rank c) (Longs [PUSH_CMD t, int (length keys)])
       (Send (server_rank c) (Longs keys)
          (Send (server_rank c) (Floats push_tensor) (Return ())))"

definition torch_set :: "cmds \<Rightarrow> torch_client \<Rightarrow> int list \<Rightarrow> tensor \<Rightarrow> unit io" where
  "torch_set t c keys set_tensor =
     Send (server_rank c) (Longs [SET_CMD t, int (length keys)])
       (Send (server_rank c) (Longs keys)
          (Send (server_rank c) (Floats set_tensor) (Return ())))"

definition torch_localize :: "torch_client \<Rightarrow> int list \<Rightarrow> unit io" where
  "torch_localize c keys = Return ()"

definition torch_stop :: "cmds \<Rightarrow> torch_client \<Rightarrow> unit io" where
  "torch_stop t c = torch_push t c (stop_key c) (ones 1 (dim c))"

definition torch_shutdown :: "cmds \<Rightarrow> torch_client \<Rightarrow> unit io" where
  "torch_shutdown t c = Send (server_rank c) (Longs [SHUTDOWN_CMD t, 0]) (Return ())"

definition torch_is_stopped :: "cmds \<Rightarrow> torch_client \<Rightarrow> (bool \<times> torch_client) io" where
  "torch_is_stopped t c =
     bind_io (torch_pull t c (stop_key c) (Some (stop_value_tensor c)))
       (\<lambda>(ret, out). case out of
           None \<Rightarrow> Fail TypeError
         | Some buf \<Rightarrow>
             (case any_eq_one_row0 buf of
                Inl e \<Rightarrow> Fail e
              | Inr b \<Rightarrow> Return (if b then True else False, c\<lparr>stop_value_tensor := buf\<rparr>)))"

definition torch_step_optim :: "cmds \<Rightarrow> torch_client \<Rightarrow> string \<Rightarrow> unit io" where
  "torch_step_optim t c group_name =
     (let parameter_index = (if group_name = ''entity'' then 0 else 1)
      in Send (server_rank c) (Longs [STEP_OPTIM_CMD t, parameter_index]) (Return ()))"

text \<open>\<open>dist.recv(cmd, src)\<close> refills the two-element header tensor; \<open>cmd[1]\<close> is returned.\<close>

definition torch_get_step_optim :: "cmds \<Rightarrow> torch_client \<Rightarrow> string \<Rightarrow> int io" where
  "torch_get_step_optim t c group_name =
     (let parameter_index = (if group_name = ''entity'' then 0 else 1)
      in Send (server_rank c) (Longs [GET_OPTIM_STEP_CMD t, parameter_index])
           (Recv (server_rank c) (\<lambda>p. case p of
              Longs xs \<Rightarrow> if length xs = 2 then Return (xs ! 1) else Fail RuntimeError
            | _ \<Rightarrow> Fail RuntimeError)))"

text \<open>
  \<open>get_lr\<close> and \<open>set_lr\<close> build the attribute name from \<open>group_name.upper()\<close>;
  \<open>str.upper\<close> is the parameter \<open>upper\<close>. A learning rate is a Python float, which the
  assignment \<open>lr_buffer[0] = lr\<close> converts to 32 bits; \<open>set_lr\<close> has sent the header by
  then, so a rate that does not fit raises after the header and before the payload.
\<close>

definition torch_get_lr ::
  "cmds \<Rightarrow> (string \<Rightarrow> string) \<Rightarrow> torch_client \<Rightarrow> string \<Rightarrow> (f32 \<times> torch_client) io" where
  "torch_get_lr t upper c group_name =
     (case getattr_cmds t (''GET_'' @ upper group_name @ ''_LR_CMD'') of
        Inl e \<Rightarrow> Fail e
      | Inr code \<Rightarrow>
          Send (server_rank c) (Longs [code, 0])
            (Recv (server_rank c) (\<lambda>p. case p of
               Floats1 xs \<Rightarrow>
                 if length xs = 1 then Return (xs ! 0, c\<lparr>lr_buffer := xs\<rparr>)
                 else Fail RuntimeError
             | _ \<Rightarrow> Fail RuntimeError)))"

definition torch_set_lr ::
  "cmds \<Rightarrow> (string \<Rightarrow> string) \<Rightarrow> torch_client \<Rightarrow> string \<Rightarrow> pyfloat \<Rightarrow> torch_client io" where
  "torch_set_lr t upper c group_name lr =
     (case getattr_cmds t (''SET_'' @ upper group_name @ ''_LR_CMD'') of
        Inl e \<Rightarrow> Fail e
      | Inr code \<Rightarrow>
          Send (server_rank c) (Longs [code, 0])
            (case f32_of_pyfloat lr of
               Inl e \<Rightarrow> Fail e
             | Inr x \<Rightarrow>
                 (let c' = c\<lparr>lr_buffer := [x]\<rparr>
                  in Send (server_rank c) (Floats1 (lr_buffer c')) (Return c'))))"

text \<open>
  Running a program against a peer: \<open>deliver\<close> hands a sent message to the peer, \<open>fetch\<close>
  takes the next message the peer has sent back.
\<close>

primrec run ::
  "('s \<Rightarrow> int \<Rightarrow> payload \<Rightarrow> error + 's) \<Rightarrow> ('s \<Rightarrow> int \<Rightarrow> error + (payload \<times> 's))
     \<Rightarrow> 'a io \<Rightarrow> 's \<Rightarrow> error + ('a \<times> 's)" where
  "run deliver fetch (Return a) = (\<lambda>s. Inr (a, s))"
| "run deliver fetch (Fail e) = (\<lambda>s. Inl e)"
| "run deliver fetch (Send dst p k) =
     (\<lambda>s. bindE (deliver s dst p) (\<lambda>s'. run deliver fetch k s'))"
| "run deliver fetch (Recv src k) =
     (\<lambda>s. bindE (fetch s src) (\<lambda>(p, s'). run deliver fetch (k p) s'))"

text \<open>The first message of a program, and the number of keys sent right after it.\<close>

definition header :: "'a io \<Rightarrow> int list option" where
  "header prog = (case prog of Send dst (Longs h) k \<Rightarrow> Some h | _ \<Rightarrow> None)"

definition keys_after_header :: "'a io \<Rightarrow> nat" where
  "keys_after_header prog =
     (case prog of
        Send dst h (Send dst' (Longs ks) k) \<Rightarrow> length ks
      | _ \<Rightarrow> 0)"

section \<open>The stores behind the remote backends\<close>

text \<open>
  The command-protocol server (module \<open>parameter_server\<close>) and the engine behind
  \<open>LapseWorker\<close> keep the row table of their backend. Neither is among the source files, so
  the table operations are taken from section 4.1 of the specification. Keys are valid inside
  \<open>[0, num_keys)\<close>, and rows come in the shape \<open>(len(keys), D)\<close>; the specification names
  no error for another shape, \<open>RuntimeError\<close> stands for it.
\<close>

definition valid_keys :: "tensor \<Rightarrow> int list \<Rightarrow> bool" where
  "valid_keys tbl keys = list_all (\<lambda>k. 0 \<le> k \<and> k < int (nrows tbl)) keys"

definition shaped :: "nat \<Rightarrow> nat \<Rightarrow> tensor \<Rightarrow> bool" where
  "shaped r c t = (nrows t = r \<and> ncols t = c \<and> wf_tensor t)"

text \<open>
  Modelled from the spec: the \<open>pull\<close> of the server and of the engine, which is not among
  the source files. It reads the current values for the keys, in key order, and fails with
  \<open>InvalidKeyError\<close> for a key outside \<open>[0, num_keys)\<close>.
\<close>

definition spec_pull :: "tensor \<Rightarrow> int list \<Rightarrow> error + tensor" where
  "spec_pull tbl keys =
     (if valid_keys tbl keys
      then Inr \<lparr>ncols = ncols tbl, rows = map (\<lambda>k. rows tbl ! nat k) keys\<rparr>
      else Inl InvalidKeyError)"

text \<open>
  Modelled from the spec: the \<open>push\<close> of the server and of the engine, which is not among
  the source files. It adds the rows element-wise to the stored values, every occurrence of
  a duplicate key contributing.
\<close>

fun accumulate_rows :: "f32 list list \<Rightarrow> nat list \<Rightarrow> f32 list list \<Rightarrow> f32 list list" where
  "accumulate_rows tbl (i # js) (v # vs) =
     accumulate_rows (tbl[i := map2 f32_add (tbl ! i) v]) js vs"
| "accumulate_rows tbl _ _ = tbl"

definition spec_push :: "tensor \<Rightarrow> int list \<Rightarrow> tensor \<Rightarrow> error + tensor" where
  "spec_push tbl keys v =
     (if \<not> valid_keys tbl keys then Inl InvalidKeyError
      else if \<not> shaped (length keys) (ncols tbl) v then Inl RuntimeError
      else Inr (tbl\<lparr>rows := accumulate_rows (rows tbl) (map nat keys) (rows v)\<rparr>))"

text \<open>
  Modelled from the spec: the \<open>set\<close> of the server and of the engine, which is not among
  the source files. It overwrites the stored values, the last writer winning.
\<close>

definition spec_set :: "tensor \<Rightarrow> int list \<Rightarrow> tensor \<Rightarrow> error + tensor" where
  "spec_set tbl keys v =
     (if \<not> valid_keys tbl keys then Inl InvalidKeyError
      else if \<not> shaped (length keys) (ncols tbl) v then Inl RuntimeError
      else Inr (tbl\<lparr>rows := put_rows (rows tbl) (map nat keys) (rows v)\<rparr>))"

text \<open>
  Modelled from the spec: the creation of the row storage, which is not among the source
  files. Section 3: it is created once, sized \<open>num_keys \<times> D\<close>; a fresh store holds zeros.
\<close>

definition fresh_store :: "nat \<Rightarrow> nat \<Rightarrow> tensor" where
  "fresh_store n d = zeros n d"

subsection \<open>The command-protocol server\<close>

text \<open>
  The server holds its table, the messages of the request that is being received, and the
  responses that have not been fetched yet.
\<close>

record server =
  table :: tensor
  pending :: "payload list"
  outbox :: "payload list"

text \<open>
  Modelled from the spec: the request handling of the server of module
  \<open>parameter_server\<close>, which is not among the source files. Sections 4.3 and 6: a request
  is the header \<open>[code, len]\<close>, then \<open>len\<close> keys, then for push and set the rows; the
  response to a pull is the rows. The server applies the operation to its table once the
  request is complete. Only the three data commands are modelled; any other message is
  answered by \<open>NotImplementedError\<close>.
\<close>

definition serve :: "cmds \<Rightarrow> server \<Rightarrow> error + server" where
  "serve t s =
     (case pending s of
        [Longs [code, n]] \<Rightarrow>
          if code = PULL_CMD t \<or> code = PUSH_CMD t \<or> code = SET_CMD t then Inr s
          else Inl NotImplementedError
      | [Longs [code, n], Longs keys] \<Rightarrow>
          if int (length keys) \<noteq> n then Inl RuntimeError
          else if code = PULL_CMD t
          then bindE (spec_pull (table s) keys)
                 (\<lambda>r. Inr (s\<lparr>pending := [], outbox := outbox s @ [Floats r]\<rparr>))
          else if code = PUSH_CMD t \<or> code = SET_CMD t then Inr s
          else Inl NotImplementedError
      | [Longs [code, n], Longs keys, Floats v] \<Rightarrow>
          if int (length keys) \<noteq> n then Inl RuntimeError
          else if code = PUSH_CMD t
          then bindE (spec_push (table s) keys v) (\<lambda>tbl. Inr (s\<lparr>table := tbl, pending := []\<rparr>))
          else if code = SET_CMD t
          then bindE (spec_set (table s) keys v) (\<lambda>tbl. Inr (s\<lparr>table := tbl, pending := []\<rparr>))
          else Inl NotImplementedError
      | _ \<Rightarrow> Inl NotImplementedError)"

text \<open>
  Modelled from the spec: the two ends of the server's connection, which are not among the
  source files. A message that arrives joins the pending request; a response is taken from
  the head of the outbox, and a client that waits for a response that was never produced
  waits forever.
\<close>

definition server_deliver :: "cmds \<Rightarrow> server \<Rightarrow> int \<Rightarrow> payload \<Rightarrow> error + server" where
  "server_deliver t s dst p = serve t (s\<lparr>pending := pending s @ [p]\<rparr>)"

definition server_fetch :: "server \<Rightarrow> int \<Rightarrow> error + (payload \<times> server)" where
  "server_fetch s src =
     (case outbox s of [] \<Rightarrow> Inl Blocked | p # ps \<Rightarrow> Inr (p, s\<lparr>outbox := ps\<rparr>))"

definition idle_server :: "tensor \<Rightarrow> server" where
  "idle_server tbl = \<lparr>table = tbl, pending = [], outbox = []\<rparr>"

definition run_server :: "cmds \<Rightarrow> 'a io \<Rightarrow> server \<Rightarrow> error + ('a \<times> server)" where
  "run_server t prog s = run (server_deliver t) server_fetch prog s"

subsection \<open>\<open>LapseParameterClient\<close>: the embedded-server backend\<close>

text \<open>
  Modelled from the spec: \<open>pull\<close>, \<open>push\<close> and \<open>set\<close> of \<open>LapseWorker\<close>, the worker class
  of the external engine that \<open>LapseParameterClient\<close> inherits from, which is not among the
  source files. The engine owns the row table; the three operations have the semantics of
  section 4.1, \<open>pull\<close> filling the buffer and returning the rows. \<open>get_key_size\<close> is the row
  width and \<open>num_keys\<close> the number of rows of the table.
\<close>

definition worker_pull :: "tensor \<Rightarrow> int list \<Rightarrow> tensor \<Rightarrow> error + (tensor option \<times> tensor)" where
  "worker_pull tbl keys buf =
     bindE (spec_pull tbl keys)
       (\<lambda>r. if shaped (length keys) (ncols tbl) buf then Inr (Some r, r) else Inl RuntimeError)"

definition worker_push :: "tensor \<Rightarrow> int list \<Rightarrow> tensor \<Rightarrow> error + tensor" where
  "worker_push tbl keys v = spec_push tbl keys v"

definition worker_set :: "tensor \<Rightarrow> int list \<Rightarrow> tensor \<Rightarrow> error + tensor" where
  "worker_set tbl keys v = spec_set tbl keys v"

text \<open>
  The client is a worker: the field \<open>engine\<close> is the state of its \<open>LapseWorker\<close> part, the
  table of the server it is bound to.
\<close>

record lapse_client = kge_client +
  engine :: tensor
  key_size :: nat
  stop_key :: "int list"
  optim_entity_step_key :: "int list"
  optim_relation_step_key :: "int list"
  entity_lr_key :: "int list"
  relation_lr_key :: "int list"
  stop_value_tensor :: tensor
  optim_entity_step_value_tensor :: tensor
  optim_relation_step_value_tensor :: tensor
  entity_lr_tensor :: tensor
  relation_lr_tensor :: tensor
  meta_key_tensor :: tensor

definition LapseParameterClient_init ::
  "(config \<Rightarrow> nat \<Rightarrow> nat) \<Rightarrow> (config \<Rightarrow> nat) \<Rightarrow> config \<Rightarrow> int \<Rightarrow> int \<Rightarrow> tensor
     \<Rightarrow> lapse_client" where
  "LapseParameterClient_init get_optimizer_dim get_num_meta_keys cfg customer_id rnk lapse_server =
     (let base = KgeParameterClient_init get_optimizer_dim get_num_meta_keys cfg rnk;
          ks = ncols lapse_server;
          n = int (nrows lapse_server);
          m = int (num_meta_keys base)
      in kge_client.extend base
           (lapse_client.fields lapse_server ks
              [n - m] [n - m + 1] [n - m + 2] [n - m + 3] [n - m + 4]
              (zeros 1 ks) (zeros 1 ks) (zeros 1 ks) (zeros 1 ks) (zeros 1 ks)
              (zeros (num_meta_keys base) ks)))"

text \<open>
  \<open>torch.empty\<close> allocates without initialising: \<open>garbage i j\<close> is whatever the memory holds
  at row \<open>i\<close>, column \<open>j\<close>.
\<close>

definition empty :: "(nat \<Rightarrow> nat \<Rightarrow> f32) \<Rightarrow> nat \<Rightarrow> nat \<Rightarrow> tensor" where
  "empty garbage r c = \<lparr>ncols = c, rows = map (\<lambda>i. map (garbage i) [0..<c]) [0..<r]\<rparr>"

definition lapse_pull ::
  "(nat \<Rightarrow> nat \<Rightarrow> f32) \<Rightarrow> lapse_client \<Rightarrow> int list \<Rightarrow> tensor option
     \<Rightarrow> error + (tensor option \<times> tensor)" where
  "lapse_pull garbage c keys pull_tensor =
     (let buf = (case pull_tensor of
                   None \<Rightarrow> empty garbage (length keys) (key_size c)
                 | Some b \<Rightarrow> b)
      in worker_pull (engine c) keys buf)"

definition lapse_push :: "lapse_client \<Rightarrow> int list \<Rightarrow> tensor \<Rightarrow> error + lapse_client" where
  "lapse_push c keys push_tensor =
     bindE (worker_push (engine c) keys push_tensor) (\<lambda>e. Inr (c\<lparr>engine := e\<rparr>))"

definition lapse_set :: "lapse_client \<Rightarrow> int list \<Rightarrow> tensor \<Rightarrow> error + lapse_client" where
  "lapse_set c keys set_tensor =
     bindE (worker_set (engine c) keys set_tensor) (\<lambda>e. Inr (c\<lparr>engine := e\<rparr>))"

definition lapse_localize :: "lapse_client \<Rightarrow> int list \<Rightarrow> error + lapse_client" where
  "lapse_localize c keys = Inl NotImplementedError"

definition lapse_stop :: "lapse_client \<Rightarrow> error + lapse_client" where
  "lapse_stop c =
     bindE (worker_push (engine c) (stop_key c) (ones 1 (key_size c)))
       (\<lambda>e. Inr (c\<lparr>engine := e\<rparr>))"

definition lapse_is_stopped :: "lapse_client \<Rightarrow> error + (bool \<times> lapse_client)" where
  "lapse_is_stopped c =
     bindE (worker_pull (engine c) (stop_key c) (stop_value_tensor c))
       (\<lambda>(ret, buf). bindE (item00_eq_one buf)
          (\<lambda>b. Inr (if b then True else False, c\<lparr>stop_value_tensor := buf\<rparr>)))"

section \<open>Sample instances\<close>

text \<open>
  A command table with the codes numbered in the order of section 4.3, a configuration with
  two-column rows and five meta keys, and one client of each class over a table of seven rows.
\<close>

definition sample_cmds :: cmds where
  "sample_cmds =
     \<lparr>PULL_CMD = 0, PUSH_CMD = 1, SET_CMD = 2, SHUTDOWN_CMD = 3, STEP_OPTIM_CMD = 4,
      GET_OPTIM_STEP_CMD = 5, GET_ENTITY_LR_CMD = 6, GET_RELATION_LR_CMD = 7,
      SET_ENTITY_LR_CMD = 8, SET_RELATION_LR_CMD = 9\<rparr>"

definition sample_config :: config where
  "sample_config = \<lparr>lookup_embedder_dim = 2\<rparr>"

definition no_optimizer_dim :: "config \<Rightarrow> nat \<Rightarrow> nat" where
  "no_optimizer_dim cfg embedding_dim = 0"

definition five_meta_keys :: "config \<Rightarrow> nat" where
  "five_meta_keys cfg = 5"

definition sample_shared :: "tensor \<Rightarrow> shared_client" where
  "sample_shared params =
     SharedParameterClient_init no_optimizer_dim five_meta_keys sample_config 1 params"

definition sample_torch :: torch_client where
  "sample_torch =
     TorchParameterClient_init no_optimizer_dim five_meta_keys sample_config 0 1 7"

definition sample_lapse :: "tensor \<Rightarrow> lapse_client" where
  "sample_lapse tbl =
     LapseParameterClient_init no_optimizer_dim five_meta_keys sample_config 0 1 tbl"

text \<open>
  A peer that takes every message and answers every receive with the same rows, whatever
  was asked.
\<close>

definition accepting :: "unit \<Rightarrow> int \<Rightarrow> payload \<Rightarrow> error + unit" where
  "accepting s dst p = Inr s"

definition replying :: "tensor \<Rightarrow> unit \<Rightarrow> int \<Rightarrow> error + (payload \<times> unit)" where
  "replying r s src = Inr (Floats r, s)"

text \<open>
  The client of the concrete scenario: 107 keys of which five are meta keys, embedding
  dimension 100, optimizer dimension 0, over a fresh store.
\<close>

definition scenario_client :: shared_client where
  "scenario_client =
     SharedParameterClient_init no_optimizer_dim five_meta_keys \<lparr>lookup_embedder_dim = 100\<rparr> 0
       (fresh_store 107 100)"

text \<open>
  Two rows to store; a table whose row 0 holds \<open>2 ^ 24\<close>, where the floats are two apart,
  and a row to push onto it; a table whose stop row (row 2 of 7, with five meta keys) holds
  a one in its second component only.
\<close>

definition sample_rows :: tensor where
  "sample_rows = \<lparr>ncols = 2, rows = [[Fin 1, Fin 2], [Fin 3, Fin 4]]\<rparr>"

definition big_table :: tensor where
  "big_table =
     \<lparr>ncols = 2,
      rows = [Fin 16777216, Fin 0] # replicate 6 [Fin 0, Fin 0]\<rparr>"

definition unit_push :: tensor where
  "unit_push = \<lparr>ncols = 2, rows = [[Fin 1, Fin 0]]\<rparr>"

definition mixed_stop_table :: tensor where
  "mixed_stop_table =
     \<lparr>ncols = 2,
      rows = [[Fin 0, Fin 0], [Fin 0, Fin 0], [Fin 0, Fin 1], [Fin 0, Fin 0], [Fin 0, Fin 0],
              [Fin 0, Fin 0], [Fin 0, Fin 0]]\<rparr>"

section \<open>Notions used in the statements\<close>

text \<open>
  The stop meta key is \<open>num_keys - num_meta_keys\<close>; \<open>stop_row tbl m\<close> is the row stored under
  it in a table with \<open>m\<close> meta keys.
\<close>

definition stop_row :: "tensor \<Rightarrow> nat \<Rightarrow> f32 list" where
  "stop_row tbl m = rows tbl ! (nrows tbl - m)"

text \<open>
  A client fits its table: the table is rectangular and as wide as the client's rows, the
  meta keys lie inside the table, the stop key is the one the constructor computes and the
  stop buffer has the shape the constructor gives it. The constructors establish this for a
  rectangular table of the configured width that has room for the meta keys.
\<close>

definition shared_ok :: "shared_client \<Rightarrow> bool" where
  "shared_ok c =
     (wf_tensor (parameters c) \<and> ncols (parameters c) = dim c
      \<and> 0 < num_meta_keys c \<and> num_meta_keys c \<le> nrows (parameters c)
      \<and> shared_client.stop_key c = [int (nrows (parameters c)) - int (num_meta_keys c)]
      \<and> shaped 1 (dim c) (shared_client.stop_value_tensor c))"

definition torch_ok :: "torch_client \<Rightarrow> tensor \<Rightarrow> bool" where
  "torch_ok c tbl =
     (wf_tensor tbl \<and> ncols tbl = dim c
      \<and> 0 < num_meta_keys c \<and> num_meta_keys c \<le> nrows tbl
      \<and> torch_client.stop_key c = [int (nrows tbl) - int (num_meta_keys c)]
      \<and> shaped 1 (dim c) (torch_client.stop_value_tensor c))"

definition lapse_ok :: "lapse_client \<Rightarrow> bool" where
  "lapse_ok c =
     (wf_tensor (engine c) \<and> ncols (engine c) = key_size c
      \<and> 0 < num_meta_keys c \<and> num_meta_keys c \<le> nrows (engine c)
      \<and> lapse_client.stop_key c = [int (nrows (engine c)) - int (num_meta_keys c)]
      \<and> shaped 1 (key_size c) (lapse_client.stop_value_tensor c))"

text \<open>The codes of the three data commands differ.\<close>

definition distinct_cmds :: "cmds \<Rightarrow> bool" where
  "distinct_cmds t = distinct [PULL_CMD t, PUSH_CMD t, SET_CMD t]"

text \<open>The rows selected by a list of keys inside the table, and the sum \<open>a + b\<close> of two
  tensors of one shape.\<close>

definition pulled :: "tensor \<Rightarrow> int list \<Rightarrow> tensor" where
  "pulled tbl keys = \<lparr>ncols = ncols tbl, rows = map (\<lambda>k. rows tbl ! nat k) keys\<rparr>"

definition tensor_add :: "tensor \<Rightarrow> tensor \<Rightarrow> tensor" where
  "tensor_add a b = \<lparr>ncols = ncols a, rows = add_rows (rows a) (rows b)\<rparr>"

text \<open>The table after the stored rows under \<open>keys\<close> have been replaced by their sums
  with the rows of \<open>v\<close>.\<close>

definition pushed :: "tensor \<Rightarrow> int list \<Rightarrow> tensor \<Rightarrow> tensor" where
  "pushed tbl keys v =
     tbl\<lparr>rows := put_rows (rows tbl) (map nat keys) (add_rows (rows (pulled tbl keys)) (rows v))\<rparr>"

text \<open>
  Float addition rounds, so \<open>(x + a) + b\<close> and \<open>x + (a + b)\<close> may differ. \<open>sums_exact\<close> says
  that they agree at every position of three blocks of rows.
\<close>

definition f32_assoc :: "f32 \<times> f32 \<times> f32 \<Rightarrow> bool" where
  "f32_assoc = (\<lambda>(x, a, b). f32_add (f32_add x a) b = f32_add x (f32_add a b))"

definition sums_exact :: "f32 list list \<Rightarrow> f32 list list \<Rightarrow> f32 list list \<Rightarrow> bool" where
  "sums_exact xs as bs =
     list_all (\<lambda>(x, a, b). list_all f32_assoc (zip x (zip a b))) (zip xs (zip as bs))"

section \<open>Basic facts\<close>

lemmas sample_defs = sample_cmds_def sample_config_def no_optimizer_dim_def five_meta_keys_def
  sample_shared_def sample_torch_def sample_lapse_def
  SharedParameterClient_init_def TorchParameterClient_init_def LapseParameterClient_init_def
  KgeParameterClient_init_def kge_client.extend_def shared_client.fields_def
  torch_client.fields_def lapse_client.fields_def

lemma bindE_Inr [simp]: "bindE (Inr x) f = f x"
  by (simp add: bindE_def)

lemma bindE_Inl [simp]: "bindE (Inl e) f = Inl e"
  by (simp add: bindE_def)

subsection \<open>Float addition\<close>

text \<open>
  Integers up to \<open>2 ^ 24\<close> in magnitude are floats, and a sum of integers that stays in
  that range is exact. Beyond it sums are rounded: at \<open>2 ^ 24\<close> the floats are two apart.
\<close>

lemma round_half_even_of_int: "round_half_even (of_int k) = k"
  by (simp add: round_half_even_def)

lemma floor_log2_of_int:
  assumes "0 < n"
  shows "floor_log2 (of_int n) = bitlen n - 1"
proof -
  have "2 ^ nat (bitlen n - 1) \<le> n"
    using bitlen_bounds [OF assms] by simp
  then have "(2 :: rat) ^ nat (bitlen n - 1) \<le> of_int n"
    by (metis of_int_le_iff of_int_numeral of_int_power)
  moreover have "1 \<le> bitlen n"
    using assms by (simp add: bitlen_alt_def)
  ultimately have "(2 :: rat) powi (bitlen n - 1) \<le> of_int n"
    by (simp add: power_int_def)
  moreover have "bitlen 1 = 1"
    by (simp add: bitlen_alt_def)
  ultimately show ?thesis
    by (simp add: floor_log2_def quotient_of_int [unfolded Rat.of_int_def [symmetric]])
qed

lemma bitlen_le_25:
  assumes "0 < n" and "n \<le> 2 ^ 24"
  shows "bitlen n \<le> 25"
proof (rule ccontr)
  assume "\<not> bitlen n \<le> 25"
  then have "25 \<le> nat (bitlen n - 1)" by simp
  then have "(2 :: int) ^ 25 \<le> 2 ^ nat (bitlen n - 1)"
    by (intro power_increasing) simp_all
  also have "\<dots> \<le> n"
    using bitlen_bounds [OF assms(1)] by simp
  finally show False using assms(2) by simp
qed

lemma round32_pos_int:
  assumes "0 < n" and "n \<le> 2 ^ 24"
  shows "round32 (of_int n) = Fin (of_int n)"
proof -
  define e where "e = bitlen n - 1"
  have e0: "0 \<le> e"
    using assms(1) by (simp add: e_def bitlen_alt_def)
  have e24: "e \<le> 24"
    using bitlen_le_25 [OF assms] by (simp add: e_def)
  have lo: "2 ^ nat e \<le> n"
    using bitlen_bounds [OF assms(1)] by (simp add: e_def)
  have fl: "floor_log2 \<bar>of_int n\<bar> = e"
    using assms(1) by (simp add: floor_log2_of_int e_def)
  have "\<exists>k. (of_int n :: rat) / 2 powi (e - 23) = of_int k"
  proof (cases "e \<le> 23")
    case True
    then have "(2 :: rat) powi (e - 23) = inverse (2 ^ nat (23 - e))"
      by (simp add: power_int_def power_one_over inverse_eq_divide)
    then have "(of_int n :: rat) / 2 powi (e - 23) = of_int (n * 2 ^ nat (23 - e))"
      by (simp add: field_simps)
    then show ?thesis by blast
  next
    case False
    with e24 have e: "e = 24" by simp
    with lo assms(2) have "n = 2 ^ 24" by simp
    then have "(of_int n :: rat) / 2 powi (e - 23) = of_int (2 ^ 23)"
      by (simp add: e)
    then show ?thesis by blast
  qed
  then obtain k where k: "(of_int n :: rat) / 2 powi (e - 23) = of_int k" by blast
  have pos: "(0 :: rat) < 2 powi (e - 23)"
    by (simp add: zero_less_power_int)
  have m: "of_int (round_half_even (\<bar>of_int n\<bar> / 2 powi (e - 23))) * 2 powi (e - 23)
      = (of_int n :: rat)"
  proof -
    have "\<bar>of_int n :: rat\<bar> = of_int n"
      using assms(1) by simp
    then have "of_int (round_half_even (\<bar>of_int n\<bar> / 2 powi (e - 23))) = (of_int k :: rat)"
      by (simp only: k round_half_even_of_int)
    also have "\<dots> = of_int n / 2 powi (e - 23)"
      by (simp only: k)
    finally show ?thesis
      using pos by simp
  qed
  have small: "\<not> (2 :: rat) powi 128 \<le> of_int n"
  proof -
    have "(of_int n :: rat) \<le> of_int (2 ^ 24)"
      using assms(2) by (simp only: of_int_le_iff)
    then show ?thesis by (simp add: power_int_def)
  qed
  have "max e (- 126) = e"
    using e0 by simp
  then show ?thesis
    using assms(1) fl m small by (simp add: round32_def Let_def)
qed

lemma round32_neg:
  "round32 q = Fin r \<Longrightarrow> round32 (- q) = Fin (- r)"
  by (auto simp: round32_def Let_def split: if_splits)

lemma round32_of_int:
  assumes "\<bar>n\<bar> \<le> 2 ^ 24"
  shows "round32 (of_int n) = Fin (of_int n)"
proof -
  consider "n = 0" | "0 < n" | "n < 0" by linarith
  then show ?thesis
  proof cases
    case 1
    then show ?thesis by (simp add: round32_def)
  next
    case 2
    with assms show ?thesis by (simp add: round32_pos_int)
  next
    case 3
    with assms have "round32 (of_int (- n)) = Fin (of_int (- n))"
      by (intro round32_pos_int) simp_all
    then show ?thesis
      using round32_neg [of "of_int (- n)" "of_int (- n)"] by simp
  qed
qed

lemma f32_add_ints:
  "\<bar>x + y\<bar> \<le> 2 ^ 24 \<Longrightarrow> f32_add (Fin (of_int x)) (Fin (of_int y)) = Fin (of_int (x + y))"
  using round32_of_int [of "x + y"] by (simp add: f32_add.simps)

lemma f32_assoc_ints:
  assumes "\<bar>x\<bar> + \<bar>a\<bar> + \<bar>b\<bar> \<le> 2 ^ 24"
  shows "f32_assoc (Fin (of_int x), Fin (of_int a), Fin (of_int b))"
proof -
  have 1: "f32_add (Fin (of_int x)) (Fin (of_int a)) = Fin (of_int (x + a))"
    using assms by (intro f32_add_ints) linarith
  have 2: "f32_add (Fin (of_int (x + a))) (Fin (of_int b)) = Fin (of_int (x + a + b))"
    using assms by (intro f32_add_ints) linarith
  have 3: "f32_add (Fin (of_int a)) (Fin (of_int b)) = Fin (of_int (a + b))"
    using assms by (intro f32_add_ints) linarith
  have 4: "f32_add (Fin (of_int x)) (Fin (of_int (a + b))) = Fin (of_int (x + (a + b)))"
    using assms by (intro f32_add_ints) linarith
  show ?thesis
    unfolding f32_assoc_def by (simp only: prod.case 1 2 3 4 add.assoc)
qed

lemma row_assoc_ints:
  "list_all (\<lambda>(x, a, b). \<bar>x\<bar> + \<bar>a\<bar> + \<bar>b\<bar> \<le> 2 ^ 24) (zip xi (zip ai bi))
     \<Longrightarrow> list_all f32_assoc
           (zip (map (\<lambda>n. Fin (of_int n)) xi)
              (zip (map (\<lambda>n. Fin (of_int n)) ai) (map (\<lambda>n. Fin (of_int n)) bi)))"
proof (induction xi arbitrary: ai bi)
  case Nil
  then show ?case by simp
next
  case (Cons x xi)
  then show ?case
    by (cases ai; cases bi) (simp_all add: f32_assoc_ints)
qed

lemma sums_exact_ints:
  "list_all (\<lambda>(x, a, b). list_all (\<lambda>(x, a, b). \<bar>x\<bar> + \<bar>a\<bar> + \<bar>b\<bar> \<le> 2 ^ 24) (zip x (zip a b)))
       (zip xs (zip as bs))
     \<Longrightarrow> sums_exact (map (map (\<lambda>n. Fin (of_int n))) xs)
           (map (map (\<lambda>n. Fin (of_int n))) as) (map (map (\<lambda>n. Fin (of_int n))) bs)"
proof (induction xs arbitrary: as bs)
  case Nil
  then show ?case by (simp add: sums_exact_def)
next
  case (Cons x xs)
  show ?case
  proof (cases as)
    case Nil
    then show ?thesis by (simp add: sums_exact_def)
  next
    case as: (Cons a as')
    show ?thesis
    proof (cases bs)
      case Nil
      then show ?thesis by (simp add: sums_exact_def as)
    next
      case bs: (Cons b bs')
      show ?thesis
        using Cons.prems Cons.IH [of as' bs']
        by (simp add: sums_exact_def as bs row_assoc_ints)
    qed
  qed
qed

lemma f32_add_0_0: "f32_add (Fin 0) (Fin 0) = Fin 0"
  using f32_add_ints [of 0 0] by simp

lemma f32_add_0_1: "f32_add (Fin 0) (Fin 1) = Fin 1"
  using f32_add_ints [of 0 1] by simp

lemma f32_add_1_1: "f32_add (Fin 1) (Fin 1) = Fin 2"
  using f32_add_ints [of 1 1] by simp

lemma f32_add_0_2: "f32_add (Fin 0) (Fin 2) = Fin 2"
  using f32_add_ints [of 0 2] by simp

lemma f32_add_big_1: "f32_add (Fin 16777216) (Fin 1) = Fin 16777216"
  by code_simp

lemma f32_add_big_2: "f32_add (Fin 16777216) (Fin 2) = Fin 16777218"
  by code_simp

lemmas f32_add_values = f32_add_0_0 f32_add_0_1 f32_add_1_1 f32_add_0_2

lemma f32_eq_one [simp]: "f32_eq x (Fin 1) = (x = Fin 1)"
  by (auto simp: f32_eq_def)

subsection \<open>Shapes, keys and rows\<close>

lemma expand_same: "length xs = n \<Longrightarrow> expand n xs = xs"
  by (cases xs) (auto simp: expand_def split: list.splits)

lemma map_expand_same: "list_all (\<lambda>r. length r = n) xss \<Longrightarrow> map (expand n) xss = xss"
  by (induction xss) (simp_all add: expand_same)

lemma broadcast_to_exact: "shaped R C t \<Longrightarrow> broadcast_to R C t = Inr (rows t)"
proof -
  assume sh: "shaped R C t"
  then have "expand R (rows t) = rows t"
    by (simp add: shaped_def nrows_def expand_same)
  moreover have "map (expand C) (rows t) = rows t"
  proof (rule map_expand_same)
    from sh have "ncols t = C" and "wf_tensor t" by (simp_all add: shaped_def)
    then show "list_all (\<lambda>r. length r = C) (rows t)" by (simp add: wf_tensor_def)
  qed
  ultimately show ?thesis
    using sh by (simp add: shaped_def broadcast_to_def)
qed

lemma norm_indices_valid:
  "list_all (\<lambda>k. 0 \<le> k \<and> k < int n) keys \<Longrightarrow> norm_indices n keys = Inr (map nat keys)"
  by (induction keys) (simp_all add: norm_index_def)

lemma norm_indices_error: "norm_indices n keys = Inl e \<Longrightarrow> e = IndexError"
proof (induction keys arbitrary: e)
  case Nil
  then show ?case by simp
next
  case (Cons k ks)
  then show ?case
    by (auto simp: norm_index_def bindE_def split: if_splits sum.splits)
qed

lemma norm_indices_out_of_range:
  "k \<in> set keys \<Longrightarrow> int n \<le> k \<Longrightarrow> norm_indices n keys = Inl IndexError"
proof (induction keys)
  case Nil
  then show ?case by simp
next
  case (Cons a ks)
  show ?case
  proof (cases "a = k")
    case True
    with Cons.prems show ?thesis by (simp add: norm_index_def)
  next
    case False
    with Cons have "norm_indices n ks = Inl IndexError" by simp
    then show ?thesis by (simp add: bindE_def norm_index_def split: sum.splits)
  qed
qed

lemma put_rows_length [simp]: "length (put_rows tbl js vs) = length tbl"
  by (induction tbl js vs rule: put_rows.induct) simp_all

lemma put_rows_commute:
  "i \<notin> set js \<Longrightarrow> put_rows (tbl[i := v]) js vs = (put_rows tbl js vs)[i := v]"
proof (induction tbl js vs rule: put_rows.induct)
  case (1 tbl j js w ws)
  then show ?case by (simp add: list_update_swap)
qed simp_all

lemma put_rows_other: "i \<notin> set js \<Longrightarrow> put_rows tbl js vs ! i = tbl ! i"
  by (induction tbl js vs rule: put_rows.induct) simp_all

lemma put_rows_get:
  "distinct js \<Longrightarrow> length vs = length js \<Longrightarrow> \<forall>i\<in>set js. i < length tbl
     \<Longrightarrow> map (\<lambda>i. put_rows tbl js vs ! i) js = vs"
proof (induction tbl js vs rule: put_rows.induct)
  case (1 tbl j js w ws)
  have "put_rows (tbl[j := w]) js ws ! j = w"
    using 1 by (simp add: put_rows_other)
  moreover have "map (\<lambda>i. put_rows (tbl[j := w]) js ws ! i) js = ws"
    using 1 by simp
  ultimately show ?case by simp
qed simp_all

lemma put_rows_twice:
  "distinct js \<Longrightarrow> length xs = length js \<Longrightarrow> length ys = length js
     \<Longrightarrow> put_rows (put_rows tbl js xs) js ys = put_rows tbl js ys"
proof (induction js arbitrary: tbl xs ys)
  case Nil
  then show ?case by simp
next
  case (Cons j js)
  obtain x xs' where xs: "xs = x # xs'" using Cons.prems by (cases xs) auto
  obtain y ys' where ys: "ys = y # ys'" using Cons.prems by (cases ys) auto
  have "put_rows (put_rows (tbl[j := x]) js xs') (j # js) (y # ys')
      = put_rows ((put_rows tbl js xs')[j := x, j := y]) js ys'"
    using Cons.prems by (simp add: put_rows_commute)
  also have "\<dots> = put_rows (put_rows (tbl[j := y]) js xs') js ys'"
    using Cons.prems by (simp add: put_rows_commute)
  also have "\<dots> = put_rows (tbl[j := y]) js ys'"
    using Cons.prems xs ys by (intro Cons.IH) auto
  finally show ?case by (simp add: xs ys)
qed

lemma put_rows_wf:
  "list_all P tbl \<Longrightarrow> list_all P vs \<Longrightarrow> list_all P (put_rows tbl js vs)"
proof (induction tbl js vs rule: put_rows.induct)
  case (1 tbl j js w ws)
  then have "list_all P (tbl[j := w])"
    by (auto simp: list_all_iff dest: set_update_subset_insert [THEN subsetD])
  with 1 show ?case by simp
qed simp_all

lemma accumulate_rows_distinct:
  "distinct js \<Longrightarrow> length vs = length js
     \<Longrightarrow> accumulate_rows tbl js vs = put_rows tbl js (add_rows (map (\<lambda>i. tbl ! i) js) vs)"
proof (induction tbl js vs rule: accumulate_rows.induct)
  case (1 tbl j js w ws)
  have same: "map (\<lambda>i. tbl[j := map2 f32_add (tbl ! j) w] ! i) js = map (\<lambda>i. tbl ! i) js"
  proof (rule map_cong [OF refl])
    fix i assume "i \<in> set js"
    with 1(2) have "j \<noteq> i" by auto
    then show "tbl[j := map2 f32_add (tbl ! j) w] ! i = tbl ! i" by simp
  qed
  show ?case using 1 by (simp add: add_rows_def same)
qed (simp_all add: add_rows_def)

lemma shaped_rows: "shaped r c t \<Longrightarrow> list_all (\<lambda>x. length x = c) (rows t)"
  by (auto simp: shaped_def wf_tensor_def)

lemma shaped_length: "shaped r c t \<Longrightarrow> length (rows t) = r"
  by (auto simp: shaped_def nrows_def)

lemma shaped_ncols: "shaped r c t \<Longrightarrow> ncols t = c"
  by (auto simp: shaped_def)

lemma shapedI:
  "length (rows t) = r \<Longrightarrow> ncols t = c \<Longrightarrow> list_all (\<lambda>x. length x = c) (rows t)
     \<Longrightarrow> shaped r c t"
  by (auto simp: shaped_def nrows_def wf_tensor_def)

lemma wf_rows: "wf_tensor t \<Longrightarrow> list_all (\<lambda>x. length x = ncols t) (rows t)"
  by (simp add: wf_tensor_def)

lemma valid_keys_indices:
  "valid_keys tbl keys \<Longrightarrow> norm_indices (nrows tbl) keys = Inr (map nat keys)"
  by (simp add: valid_keys_def norm_indices_valid)

lemma valid_keys_bound: "valid_keys tbl keys \<Longrightarrow> \<forall>i\<in>set (map nat keys). i < length (rows tbl)"
  by (auto simp: valid_keys_def list_all_iff nrows_def)

lemma valid_keys_distinct: "valid_keys tbl keys \<Longrightarrow> distinct keys \<Longrightarrow> distinct (map nat keys)"
  by (auto simp: valid_keys_def list_all_iff distinct_map eq_nat_nat_iff intro!: inj_onI)

lemma getitem_valid: "valid_keys tbl keys \<Longrightarrow> getitem tbl keys = Inr (pulled tbl keys)"
  by (simp add: getitem_def valid_keys_indices pulled_def comp_def)

lemma getitem_out_of_range:
  "k \<in> set keys \<Longrightarrow> int (nrows tbl) \<le> k \<Longrightarrow> getitem tbl keys = Inl IndexError"
  by (simp add: getitem_def norm_indices_out_of_range)

lemma shaped_pulled:
  assumes "valid_keys tbl keys" and "wf_tensor tbl"
  shows "shaped (length keys) (ncols tbl) (pulled tbl keys)"
proof -
  have "list_all (\<lambda>r. length r = ncols tbl) (map (\<lambda>k. rows tbl ! nat k) keys)"
    using assms valid_keys_bound [OF assms(1)]
    by (auto simp: wf_tensor_def list_all_iff)
  then show ?thesis
    by (intro shapedI) (simp_all add: pulled_def)
qed

lemma setitem_valid:
  "valid_keys tbl keys \<Longrightarrow> shaped (length keys) (ncols tbl) v
     \<Longrightarrow> setitem tbl keys v = Inr (tbl\<lparr>rows := put_rows (rows tbl) (map nat keys) (rows v)\<rparr>)"
  by (simp add: setitem_def broadcast_to_exact valid_keys_indices)

lemma length_add_rows: "length (add_rows xs ys) = min (length xs) (length ys)"
  by (simp add: add_rows_def)

lemma add_rows_wf:
  "list_all (\<lambda>r. length r = c) xs \<Longrightarrow> list_all (\<lambda>r. length r = c) ys
     \<Longrightarrow> list_all (\<lambda>r. length r = c) (add_rows xs ys)"
  by (induction xs arbitrary: ys) (case_tac ys; simp add: add_rows_def)+

lemma shaped_add_rows:
  assumes "shaped r c a" and "shaped r c b" and "ncols x = c"
  shows "shaped r c (x\<lparr>rows := add_rows (rows a) (rows b)\<rparr>)"
proof (rule shapedI)
  show "length (rows (x\<lparr>rows := add_rows (rows a) (rows b)\<rparr>)) = r"
    using assms by (simp add: length_add_rows shaped_length)
  show "ncols (x\<lparr>rows := add_rows (rows a) (rows b)\<rparr>) = c"
    using assms by simp
  show "list_all (\<lambda>r. length r = c) (rows (x\<lparr>rows := add_rows (rows a) (rows b)\<rparr>))"
    using assms by (simp add: add_rows_wf shaped_rows)
qed

lemma shaped_tensor_add: "shaped r c a \<Longrightarrow> shaped r c b \<Longrightarrow> shaped r c (tensor_add a b)"
  by (rule shapedI)
    (simp_all add: tensor_add_def length_add_rows shaped_length shaped_ncols add_rows_wf shaped_rows)

lemma iadd_shaped:
  "shaped (nrows t) (ncols t) v \<Longrightarrow> iadd t v = Inr (t\<lparr>rows := add_rows (rows t) (rows v)\<rparr>)"
  by (simp add: iadd_def broadcast_to_exact)

lemma shared_push_eq:
  assumes "valid_keys (parameters c) keys" and "wf_tensor (parameters c)"
    and "shaped (length keys) (ncols (parameters c)) v"
  shows "shared_push c keys v = Inr (c\<lparr>parameters := pushed (parameters c) keys v\<rparr>)"
proof -
  let ?tbl = "parameters c"
  have sel: "shaped (length keys) (ncols ?tbl) (pulled ?tbl keys)"
    using assms by (simp add: shaped_pulled)
  then have sh: "nrows (pulled ?tbl keys) = length keys" "ncols (pulled ?tbl keys) = ncols ?tbl"
    by (simp_all add: shaped_length shaped_ncols nrows_def)
  have add: "iadd (pulled ?tbl keys) v
      = Inr ((pulled ?tbl keys)\<lparr>rows := add_rows (rows (pulled ?tbl keys)) (rows v)\<rparr>)"
    using assms(3) sh by (simp add: iadd_shaped)
  have "shaped (length keys) (ncols ?tbl)
      ((pulled ?tbl keys)\<lparr>rows := add_rows (rows (pulled ?tbl keys)) (rows v)\<rparr>)"
    using sel assms(3) sh by (intro shaped_add_rows) simp_all
  then show ?thesis
    using assms(1) add
    by (simp add: shared_push_def getitem_valid setitem_valid pushed_def)
qed

lemma spec_push_eq:
  assumes "valid_keys tbl keys" and "distinct keys" and "shaped (length keys) (ncols tbl) v"
  shows "spec_push tbl keys v = Inr (pushed tbl keys v)"
proof -
  have "accumulate_rows (rows tbl) (map nat keys) (rows v)
      = put_rows (rows tbl) (map nat keys)
          (add_rows (map (\<lambda>i. rows tbl ! i) (map nat keys)) (rows v))"
    using assms by (intro accumulate_rows_distinct valid_keys_distinct)
      (simp_all add: shaped_length)
  then show ?thesis
    using assms by (simp add: spec_push_def pushed_def pulled_def comp_def)
qed

lemma pushed_shape [simp]:
  "nrows (pushed tbl keys v) = nrows tbl" "ncols (pushed tbl keys v) = ncols tbl"
  by (simp_all add: pushed_def nrows_def)

lemma valid_keys_pushed [simp]: "valid_keys (pushed tbl keys v) ks = valid_keys tbl ks"
  by (simp add: valid_keys_def)

lemma wf_pushed:
  assumes "valid_keys tbl keys" and "wf_tensor tbl" and "shaped (length keys) (ncols tbl) v"
  shows "wf_tensor (pushed tbl keys v)"
proof -
  have "list_all (\<lambda>r. length r = ncols tbl) (add_rows (rows (pulled tbl keys)) (rows v))"
    using shaped_pulled [OF assms(1,2)] assms(3)
    by (intro add_rows_wf) (simp_all add: shaped_rows)
  then show ?thesis
    using wf_rows [OF assms(2)] by (simp add: pushed_def wf_tensor_def put_rows_wf)
qed

lemma rows_pulled_pushed:
  assumes "valid_keys tbl keys" and "distinct keys" and "wf_tensor tbl"
    and "shaped (length keys) (ncols tbl) v"
  shows "rows (pulled (pushed tbl keys v) keys) = add_rows (rows (pulled tbl keys)) (rows v)"
proof -
  have "map (\<lambda>i. put_rows (rows tbl) (map nat keys)
              (add_rows (rows (pulled tbl keys)) (rows v)) ! i) (map nat keys)
      = add_rows (rows (pulled tbl keys)) (rows v)"
    using assms valid_keys_bound [OF assms(1)]
    by (intro put_rows_get valid_keys_distinct)
      (simp_all add: length_add_rows pulled_def shaped_length)
  then show ?thesis
    by (simp add: pulled_def pushed_def comp_def)
qed

lemma map2_assoc:
  "list_all f32_assoc (zip x (zip a b))
     \<Longrightarrow> map2 f32_add (map2 f32_add x a) b = map2 f32_add x (map2 f32_add a b)"
proof (induction x arbitrary: a b)
  case Nil
  then show ?case by simp
next
  case (Cons x0 x)
  then show ?case
    by (cases a; cases b) (simp_all add: f32_assoc_def)
qed

lemma add_rows_assoc:
  "sums_exact xs as bs \<Longrightarrow> add_rows (add_rows xs as) bs = add_rows xs (add_rows as bs)"
proof (induction xs arbitrary: as bs)
  case Nil
  then show ?case by (simp add: add_rows_def)
next
  case (Cons x xs)
  show ?case
  proof (cases as)
    case Nil
    then show ?thesis by (simp add: add_rows_def)
  next
    case as: (Cons a as')
    show ?thesis
    proof (cases bs)
      case Nil
      then show ?thesis by (simp add: add_rows_def)
    next
      case bs: (Cons b bs')
      have "sums_exact xs as' bs'" and "list_all f32_assoc (zip x (zip a b))"
        using Cons.prems by (simp_all add: sums_exact_def as bs)
      then show ?thesis
        using Cons.IH [of as' bs'] by (simp add: add_rows_def as bs map2_assoc)
    qed
  qed
qed

lemma pushed_pushed:
  assumes "valid_keys tbl keys" and "distinct keys" and "wf_tensor tbl"
    and "shaped (length keys) (ncols tbl) a" and "shaped (length keys) (ncols tbl) b"
    and "sums_exact (rows (pulled tbl keys)) (rows a) (rows b)"
  shows "pushed (pushed tbl keys a) keys b = pushed tbl keys (tensor_add a b)"
proof -
  have len: "length (rows (pulled tbl keys)) = length keys" "length (rows a) = length keys"
    "length (rows b) = length keys"
    using assms by (simp_all add: pulled_def shaped_length)
  have "put_rows (put_rows (rows tbl) (map nat keys) (add_rows (rows (pulled tbl keys)) (rows a)))
          (map nat keys) (add_rows (add_rows (rows (pulled tbl keys)) (rows a)) (rows b))
      = put_rows (rows tbl) (map nat keys)
          (add_rows (add_rows (rows (pulled tbl keys)) (rows a)) (rows b))"
    using assms(1,2) len by (intro put_rows_twice valid_keys_distinct) (simp_all add: length_add_rows)
  then show ?thesis
    using rows_pulled_pushed [OF assms(1,2,3,4)] add_rows_assoc [OF assms(6)]
    by (simp add: pushed_def tensor_add_def)
qed

subsection \<open>Running the command protocol against the server\<close>

lemma run_bind_io:
  "run deliver fetch (bind_io prog k) s
     = bindE (run deliver fetch prog s) (\<lambda>(a, s'). run deliver fetch (k a) s')"
proof (induction prog arbitrary: s)
  case (Return a)
  then show ?case by simp
next
  case (Fail e)
  then show ?case by simp
next
  case (Send dst p prog)
  then show ?case by (cases "deliver s dst p") simp_all
next
  case (Recv src f)
  then show ?case by (cases "fetch s src") (simp_all add: split_def)
qed

lemma run_server_bind_io:
  "run_server t (bind_io prog k) s
     = bindE (run_server t prog s) (\<lambda>(a, s'). run_server t (k a) s')"
  by (simp add: run_server_def run_bind_io)

lemma run_torch_pull:
  "run_server t (torch_pull t c keys pull_tensor) (idle_server tbl)
     = bindE (spec_pull tbl keys)
         (\<lambda>r. if nrows r = nrows (case pull_tensor of None \<Rightarrow> zeros (length keys) (dim c)
                                                     | Some b \<Rightarrow> b)
                \<and> ncols r = ncols (case pull_tensor of None \<Rightarrow> zeros (length keys) (dim c)
                                                     | Some b \<Rightarrow> b)
              then Inr ((None, map_option (\<lambda>b. r) pull_tensor), idle_server tbl)
              else Inl RuntimeError)"
  by (cases "spec_pull tbl keys")
    (simp_all add: run_server_def torch_pull_def recv_tensor_def server_deliver_def
      server_fetch_def serve_def idle_server_def Let_def)

lemma run_torch_push:
  "distinct_cmds t \<Longrightarrow>
   run_server t (torch_push t c keys v) (idle_server tbl)
     = bindE (spec_push tbl keys v) (\<lambda>tbl'. Inr ((), idle_server tbl'))"
  by (cases "spec_push tbl keys v")
    (auto simp: run_server_def torch_push_def server_deliver_def serve_def idle_server_def
      distinct_cmds_def)

lemma run_torch_set:
  "distinct_cmds t \<Longrightarrow>
   run_server t (torch_set t c keys v) (idle_server tbl)
     = bindE (spec_set tbl keys v) (\<lambda>tbl'. Inr ((), idle_server tbl'))"
  by (cases "spec_set tbl keys v")
    (auto simp: run_server_def torch_set_def server_deliver_def serve_def idle_server_def
      distinct_cmds_def)

lemma spec_pull_valid: "valid_keys tbl keys \<Longrightarrow> spec_pull tbl keys = Inr (pulled tbl keys)"
  by (simp add: spec_pull_def pulled_def)

lemma tensor_rows_eq: "ncols (a :: tensor) = ncols b \<Longrightarrow> rows a = rows b \<Longrightarrow> a = b"
  by simp

lemma spec_set_eq:
  "valid_keys tbl keys \<Longrightarrow> shaped (length keys) (ncols tbl) v
     \<Longrightarrow> spec_set tbl keys v = Inr (tbl\<lparr>rows := put_rows (rows tbl) (map nat keys) (rows v)\<rparr>)"
  by (simp add: spec_set_def)

lemma pulled_after_set:
  assumes "valid_keys tbl keys" and "distinct keys" and "shaped (length keys) (ncols tbl) v"
  shows "pulled (tbl\<lparr>rows := put_rows (rows tbl) (map nat keys) (rows v)\<rparr>) keys = v"
proof -
  have "map (\<lambda>i. put_rows (rows tbl) (map nat keys) (rows v) ! i) (map nat keys) = rows v"
    using assms valid_keys_bound [OF assms(1)]
    by (intro put_rows_get valid_keys_distinct) (simp_all add: shaped_length)
  then show ?thesis
    using shaped_ncols [OF assms(3)] by (intro tensor_rows_eq) (simp_all add: pulled_def comp_def)
qed

lemma valid_keys_after_set [simp]:
  "valid_keys (tbl\<lparr>rows := put_rows (rows tbl) js vs\<rparr>) keys = valid_keys tbl keys"
  by (simp add: valid_keys_def nrows_def)

lemma slice_assign_shaped:
  "shaped (nrows buf) (ncols buf) v \<Longrightarrow> slice_assign buf v = Inr v"
proof -
  assume sh: "shaped (nrows buf) (ncols buf) v"
  then have "buf\<lparr>rows := rows v\<rparr> = v"
    by (intro tensor_rows_eq) (simp_all add: shaped_ncols)
  with sh show ?thesis by (simp add: slice_assign_def broadcast_to_exact)
qed

lemma shaped_same: "shaped r c buf \<Longrightarrow> shaped r c v \<Longrightarrow> shaped (nrows buf) (ncols buf) v"
  by (simp add: shaped_def)

subsection \<open>The stop row\<close>

lemma map2_replicate: "map2 f xs (replicate (length xs) c) = map (\<lambda>x. f x c) xs"
  by (induction xs) simp_all

lemma stop_key_valid:
  assumes "0 < m" and "m \<le> nrows tbl"
  shows "valid_keys tbl [int (nrows tbl) - int m]"
    and "nat (int (nrows tbl) - int m) = nrows tbl - m"
    and "nrows tbl - m < length (rows tbl)"
  using assms by (simp_all add: valid_keys_def nrows_def)

lemma pulled_stop:
  "0 < m \<Longrightarrow> m \<le> nrows tbl
     \<Longrightarrow> pulled tbl [int (nrows tbl) - int m] = \<lparr>ncols = ncols tbl, rows = [stop_row tbl m]\<rparr>"
  by (simp add: pulled_def stop_row_def stop_key_valid)

lemma shaped_ones [simp]: "shaped r c (ones r c)"
  by (rule shapedI) (simp_all add: ones_def full_def list_all_iff)

lemma shaped_zeros [simp]: "shaped r c (zeros r c)"
  by (rule shapedI) (simp_all add: zeros_def full_def list_all_iff)

lemma stop_row_length:
  "wf_tensor tbl \<Longrightarrow> 0 < m \<Longrightarrow> m \<le> nrows tbl \<Longrightarrow> length (stop_row tbl m) = ncols tbl"
  using stop_key_valid(3) [of m tbl]
  by (auto simp: wf_tensor_def list_all_iff stop_row_def)

lemma stop_row_pushed:
  assumes "wf_tensor tbl" and "0 < m" and "m \<le> nrows tbl"
  shows "stop_row (pushed tbl [int (nrows tbl) - int m] (ones 1 (ncols tbl))) m
           = map (\<lambda>x. f32_add x (Fin 1)) (stop_row tbl m)"
proof -
  have "map2 f32_add (stop_row tbl m) (replicate (ncols tbl) (Fin 1))
      = map (\<lambda>x. f32_add x (Fin 1)) (stop_row tbl m)"
    using map2_replicate [of f32_add "stop_row tbl m" "Fin 1"] stop_row_length [OF assms]
    by simp
  moreover have "rows (pulled tbl [int (nrows tbl) - int m]) = [stop_row tbl m]"
    using assms by (simp add: pulled_stop)
  then have "rows (pushed tbl [int (nrows tbl) - int m] (ones 1 (ncols tbl)))
      = (rows tbl)[nrows tbl - m := map2 f32_add (stop_row tbl m) (replicate (ncols tbl) (Fin 1))]"
    using stop_key_valid(2) [OF assms(2,3)]
    by (simp add: pushed_def add_rows_def ones_def full_def)
  ultimately show ?thesis
    using stop_key_valid(3) [OF assms(2,3)]
    by (simp add: stop_row_def [of "pushed _ _ _"])
qed

lemma stop_row_fresh:
  "0 < m \<Longrightarrow> m \<le> n \<Longrightarrow> stop_row (fresh_store n d) m = replicate d (Fin 0)"
  by (simp add: stop_row_def fresh_store_def zeros_def full_def nrows_def)

lemma any_eq_one_single:
  "any_eq_one_row0 \<lparr>ncols = c, rows = [r]\<rparr> = Inr (Fin 1 \<in> set r)"
  by (simp add: any_eq_one_row0_def list_ex_iff)

lemma shaped_stop_row:
  "wf_tensor tbl \<Longrightarrow> 0 < m \<Longrightarrow> m \<le> nrows tbl
     \<Longrightarrow> shaped 1 (ncols tbl) \<lparr>ncols = ncols tbl, rows = [stop_row tbl m]\<rparr>"
  by (rule shapedI) (simp_all add: stop_row_length)

lemma shared_is_stopped_eq:
  assumes "shared_ok sc"
  shows "shared_is_stopped sc
    = Inr (Fin 1 \<in> set (stop_row (parameters sc) (num_meta_keys sc)),
           sc\<lparr>shared_client.stop_value_tensor :=
                \<lparr>ncols = dim sc, rows = [stop_row (parameters sc) (num_meta_keys sc)]\<rparr>\<rparr>)"
proof -
  let ?tbl = "parameters sc" and ?m = "num_meta_keys sc"
  from assms have ok: "wf_tensor ?tbl" "ncols ?tbl = dim sc" "0 < ?m" "?m \<le> nrows ?tbl"
    "shared_client.stop_key sc = [int (nrows ?tbl) - int ?m]"
    "shaped 1 (dim sc) (shared_client.stop_value_tensor sc)"
    by (simp_all add: shared_ok_def)
  have "shaped (nrows (shared_client.stop_value_tensor sc))
      (ncols (shared_client.stop_value_tensor sc)) \<lparr>ncols = ncols ?tbl, rows = [stop_row ?tbl ?m]\<rparr>"
    using ok(6) shaped_stop_row [OF ok(1,3,4)] ok(2) by (simp add: shaped_def)
  then show ?thesis
    using ok stop_key_valid(1) [OF ok(3,4)]
    by (simp add: shared_is_stopped_def shared_pull_def getitem_valid pulled_stop
        slice_assign_shaped any_eq_one_single)
qed

lemma shared_stop_eq:
  assumes "shared_ok sc"
  shows "shared_stop sc
    = Inr (sc\<lparr>parameters := pushed (parameters sc) (shared_client.stop_key sc)
                                (ones 1 (dim sc))\<rparr>)"
  using assms stop_key_valid(1) [of "num_meta_keys sc" "parameters sc"]
  by (simp add: shared_stop_def shared_ok_def shared_push_eq)

lemma shared_ok_stop:
  assumes "shared_ok sc"
  shows "shared_ok (sc\<lparr>parameters := pushed (parameters sc) (shared_client.stop_key sc)
                                (ones 1 (dim sc))\<rparr>)"
proof -
  have "wf_tensor (pushed (parameters sc) (shared_client.stop_key sc) (ones 1 (dim sc)))"
    using assms stop_key_valid(1) [of "num_meta_keys sc" "parameters sc"]
    by (intro wf_pushed) (simp_all add: shared_ok_def)
  then show ?thesis
    using assms by (simp add: shared_ok_def)
qed

lemma run_server_Return [simp]: "run_server t (Return a) s = Inr (a, s)"
  by (simp add: run_server_def)

lemma run_server_Fail [simp]: "run_server t (Fail e) s = Inl e"
  by (simp add: run_server_def)

lemma nrows_single [simp]: "nrows \<lparr>ncols = c, rows = [r]\<rparr> = 1"
  by (simp add: nrows_def)

lemma torch_is_stopped_eq:
  assumes "torch_ok tc tbl"
  shows "run_server t (torch_is_stopped t tc) (idle_server tbl)
    = Inr ((Fin 1 \<in> set (stop_row tbl (num_meta_keys tc)),
            tc\<lparr>torch_client.stop_value_tensor :=
                 \<lparr>ncols = dim tc, rows = [stop_row tbl (num_meta_keys tc)]\<rparr>\<rparr>),
           idle_server tbl)"
proof -
  let ?m = "num_meta_keys tc"
  from assms have ok: "wf_tensor tbl" "ncols tbl = dim tc" "0 < ?m" "?m \<le> nrows tbl"
    "torch_client.stop_key tc = [int (nrows tbl) - int ?m]"
    "shaped 1 (dim tc) (torch_client.stop_value_tensor tc)"
    by (simp_all add: torch_ok_def)
  have buf: "nrows (torch_client.stop_value_tensor tc) = 1"
    "ncols (torch_client.stop_value_tensor tc) = dim tc"
    using ok(6) by (simp_all add: shaped_def)
  show ?thesis
    using ok(2,5) buf stop_key_valid(1) [OF ok(3,4)] pulled_stop [OF ok(3,4)]
    by (simp add: torch_is_stopped_def run_server_bind_io run_torch_pull spec_pull_valid
        any_eq_one_single)
qed

lemma torch_stop_eq:
  assumes "torch_ok tc tbl" and "distinct_cmds t"
  shows "run_server t (torch_stop t tc) (idle_server tbl)
    = Inr ((), idle_server (pushed tbl (torch_client.stop_key tc) (ones 1 (dim tc))))"
  using assms stop_key_valid(1) [of "num_meta_keys tc" tbl]
  by (simp add: torch_stop_def torch_ok_def run_torch_push spec_push_eq)

lemma torch_ok_stop:
  assumes "torch_ok tc tbl"
  shows "torch_ok tc (pushed tbl (torch_client.stop_key tc) (ones 1 (dim tc)))"
proof -
  have "wf_tensor (pushed tbl (torch_client.stop_key tc) (ones 1 (dim tc)))"
    using assms stop_key_valid(1) [of "num_meta_keys tc" tbl]
    by (intro wf_pushed) (simp_all add: torch_ok_def)
  then show ?thesis
    using assms by (simp add: torch_ok_def)
qed

lemma item00_single:
  "r \<noteq> [] \<Longrightarrow> item00_eq_one \<lparr>ncols = c, rows = [r]\<rparr> = Inr (r ! 0 = Fin 1)"
  by (cases r) (simp_all add: item00_eq_one_def)

lemma lapse_is_stopped_eq:
  assumes "lapse_ok lc" and "0 < key_size lc"
  shows "lapse_is_stopped lc
    = Inr (stop_row (engine lc) (num_meta_keys lc) ! 0 = Fin 1,
           lc\<lparr>lapse_client.stop_value_tensor :=
                \<lparr>ncols = key_size lc, rows = [stop_row (engine lc) (num_meta_keys lc)]\<rparr>\<rparr>)"
proof -
  let ?tbl = "engine lc" and ?m = "num_meta_keys lc"
  from assms have ok: "wf_tensor ?tbl" "ncols ?tbl = key_size lc" "0 < ?m" "?m \<le> nrows ?tbl"
    "lapse_client.stop_key lc = [int (nrows ?tbl) - int ?m]"
    "shaped 1 (key_size lc) (lapse_client.stop_value_tensor lc)"
    by (simp_all add: lapse_ok_def)
  have "stop_row ?tbl ?m \<noteq> []"
    using stop_row_length [OF ok(1,3,4)] ok(2) assms(2) by auto
  then show ?thesis
    using ok(2,5,6) stop_key_valid(1) [OF ok(3,4)] pulled_stop [OF ok(3,4)]
    by (simp add: lapse_is_stopped_def worker_pull_def spec_pull_valid item00_single)
qed

lemma lapse_stop_eq:
  assumes "lapse_ok lc"
  shows "lapse_stop lc
    = Inr (lc\<lparr>engine := pushed (engine lc) (lapse_client.stop_key lc) (ones 1 (key_size lc))\<rparr>)"
  using assms stop_key_valid(1) [of "num_meta_keys lc" "engine lc"]
  by (simp add: lapse_stop_def lapse_ok_def worker_push_def spec_push_eq)

lemma lapse_ok_stop:
  assumes "lapse_ok lc"
  shows "lapse_ok (lc\<lparr>engine := pushed (engine lc) (lapse_client.stop_key lc)
                               (ones 1 (key_size lc))\<rparr>)"
proof -
  have "wf_tensor (pushed (engine lc) (lapse_client.stop_key lc) (ones 1 (key_size lc)))"
    using assms stop_key_valid(1) [of "num_meta_keys lc" "engine lc"]
    by (intro wf_pushed) (simp_all add: lapse_ok_def)
  then show ?thesis
    using assms by (simp add: lapse_ok_def)
qed

lemma replicate_plus_one:
  "map (\<lambda>x. f32_add x (Fin 1)) (replicate d (Fin 0)) = replicate d (Fin 1)"
  by (simp only: map_replicate f32_add_0_1)

lemma stop_row_pushed_zero:
  assumes "wf_tensor tbl" and "0 < m" and "m \<le> nrows tbl"
    and "stop_row tbl m = replicate (ncols tbl) (Fin 0)"
  shows "stop_row (pushed tbl [int (nrows tbl) - int m] (ones 1 (ncols tbl))) m
           = replicate (ncols tbl) (Fin 1)"
  by (simp only: stop_row_pushed [OF assms(1-3)] assms(4) replicate_plus_one)

lemma one_in_ones: "0 < d \<Longrightarrow> Fin 1 \<in> set (replicate d (Fin 1))"
  by simp

lemma one_not_in_zeros: "Fin 1 \<notin> set (replicate d (Fin 0))"
  by simp

declare f32_add.simps [simp del]

subsection \<open>The sample instances\<close>

lemma shape_full [simp]: "nrows (full r c v) = r" "ncols (full r c v) = c"
  by (simp_all add: full_def nrows_def)

lemma shape_fresh [simp]:
  "nrows (fresh_store n d) = n" "ncols (fresh_store n d) = d" "wf_tensor (fresh_store n d)"
  using shaped_zeros [of n d] by (simp_all add: fresh_store_def zeros_def shaped_def)

lemma sample_shared_simps [simp]:
  "parameters (sample_shared tbl) = tbl" "dim (sample_shared tbl) = 2"
  "num_meta_keys (sample_shared tbl) = 5"
  "shared_client.stop_key (sample_shared tbl) = [int (nrows tbl) - 5]"
  "shared_client.stop_value_tensor (sample_shared tbl) = zeros 1 2"
  by (simp_all add: sample_defs Let_def)

lemma sample_torch_simps [simp]:
  "dim sample_torch = 2" "num_meta_keys sample_torch = 5"
  "torch_client.stop_key sample_torch = [2]"
  "torch_client.stop_value_tensor sample_torch = zeros 1 2"
  by (simp_all add: sample_defs Let_def)

lemma sample_lapse_simps [simp]:
  "engine (sample_lapse tbl) = tbl" "key_size (sample_lapse tbl) = ncols tbl"
  "num_meta_keys (sample_lapse tbl) = 5"
  "lapse_client.stop_key (sample_lapse tbl) = [int (nrows tbl) - 5]"
  "lapse_client.stop_value_tensor (sample_lapse tbl) = zeros 1 (ncols tbl)"
  by (simp_all add: sample_defs Let_def)

lemma shared_init_ok:
  assumes "wf_tensor params" and "ncols params = lookup_embedder_dim cfg + g cfg (lookup_embedder_dim cfg)"
    and "0 < h cfg" and "h cfg \<le> nrows params"
  shows "shared_ok (SharedParameterClient_init g h cfg rnk params)"
  using assms
  by (simp add: shared_ok_def SharedParameterClient_init_def KgeParameterClient_init_def
      kge_client.extend_def shared_client.fields_def Let_def)

lemma torch_init_ok:
  assumes "wf_tensor tbl" and "ncols tbl = lookup_embedder_dim cfg + g cfg (lookup_embedder_dim cfg)"
    and "0 < h cfg" and "h cfg \<le> nrows tbl"
  shows "torch_ok (TorchParameterClient_init g h cfg srv rnk (int (nrows tbl))) tbl"
  using assms
  by (simp add: torch_ok_def TorchParameterClient_init_def KgeParameterClient_init_def
      kge_client.extend_def torch_client.fields_def Let_def)

lemma lapse_init_ok:
  assumes "wf_tensor tbl" and "0 < h cfg" and "h cfg \<le> nrows tbl"
  shows "lapse_ok (LapseParameterClient_init g h cfg cid rnk tbl)"
  using assms
  by (simp add: lapse_ok_def LapseParameterClient_init_def KgeParameterClient_init_def
      kge_client.extend_def lapse_client.fields_def Let_def)

lemma sample_ok:
  "shared_ok (sample_shared (fresh_store 7 2))"
  "torch_ok sample_torch (fresh_store 7 2)"
  "lapse_ok (sample_lapse (fresh_store 7 2))"
  "distinct_cmds sample_cmds"
  by (simp_all add: shared_ok_def torch_ok_def lapse_ok_def distinct_cmds_def sample_cmds_def)

lemma getitem_fresh:
  "0 \<le> k \<Longrightarrow> k < int n \<Longrightarrow> getitem (fresh_store n d) [k] = Inr (zeros 1 d)"
  by (simp add: getitem_def norm_index_def fresh_store_def zeros_def full_def nrows_def)


section \<open>Keys out of range\<close>

text \<open>
  C1, as stated, fails: no backend raises an \<open>InvalidKeyError\<close> of its own. With seven
  keys, \<open>pull([7], buffer)\<close> on the local-memory backend fails with the \<open>IndexError\<close> of
  the table lookup. \<open>TorchParameterClient.pull\<close> checks no key: against a peer that answers
  with a row, \<open>pull([7], buffer)\<close> returns normally with that row in the buffer.
\<close>

theorem pull_out_of_range_counterexample:
  "shared_pull (sample_shared (zeros 7 2)) [7] (Some (zeros 1 2)) = Inl IndexError
   \<and> shared_pull (sample_shared (zeros 7 2)) [7] (Some (zeros 1 2)) \<noteq> Inl InvalidKeyError
   \<and> run accepting (replying (ones 1 2))
         (torch_pull sample_cmds sample_torch [7] (Some (zeros 1 2))) ()
       = Inr ((None, Some (ones 1 2)), ())"
  by (simp add: shared_pull_def getitem_def norm_index_def nrows_def zeros_def ones_def
      full_def torch_pull_def recv_tensor_def accepting_def replying_def)

text \<open>
  C1, amended. On the local-memory backend, \<open>pull(keys, buffer)\<close> with a key list that
  contains a key \<open>k \<ge> num_keys\<close> (the number of rows of the table) fails with
  \<open>IndexError\<close>; the key is neither clamped nor read and nothing is written to the buffer.
  The command-protocol client checks no key: it sends the header and the keys as they are
  and then waits for the answer, so that the server alone decides whether the call fails.
  The embedded-server client passes the keys as they are to the \<open>pull\<close> of the engine.
\<close>

theorem pull_key_out_of_range:
  assumes "k \<in> set keys" and "int (nrows (parameters sc)) \<le> k"
  shows "shared_pull sc keys (Some buf) = Inl IndexError
    \<and> (\<exists>cont. torch_pull t tc keys pull_tensor
           = Send (server_rank tc) (Longs [PULL_CMD t, int (length keys)])
               (Send (server_rank tc) (Longs keys) (Recv (server_rank tc) cont)))
    \<and> lapse_pull garbage lc keys pull_tensor
         = worker_pull (engine lc) keys
             (case pull_tensor of
                None \<Rightarrow> empty garbage (length keys) (key_size lc)
              | Some b \<Rightarrow> b)"
proof -
  have "shared_pull sc keys (Some buf) = Inl IndexError"
    using assms by (simp add: shared_pull_def getitem_out_of_range)
  moreover have "\<exists>cont. torch_pull t tc keys pull_tensor
      = Send (server_rank tc) (Longs [PULL_CMD t, int (length keys)])
          (Send (server_rank tc) (Longs keys) (Recv (server_rank tc) cont))"
    by (simp add: torch_pull_def recv_tensor_def Let_def)
  moreover have "lapse_pull garbage lc keys pull_tensor
      = worker_pull (engine lc) keys
          (case pull_tensor of
             None \<Rightarrow> empty garbage (length keys) (key_size lc)
           | Some b \<Rightarrow> b)"
    by (simp add: lapse_pull_def Let_def)
  ultimately show ?thesis by simp
qed

theorem pull_key_out_of_range_witness:
  "(7 :: int) \<in> set [3, 7] \<and> int (nrows (parameters (sample_shared (zeros 7 2)))) \<le> 7
   \<and> shared_pull (sample_shared (zeros 7 2)) [3, 7] (Some (zeros 2 2)) = Inl IndexError"
  using pull_key_out_of_range [of 7 "[3, 7]" "sample_shared (zeros 7 2)" "zeros 2 2"
      sample_cmds sample_torch None "\<lambda>i j. NaN" "sample_lapse (zeros 7 2)"]
  by (simp add: zeros_def)

section \<open>The stop flag\<close>

text \<open>
  C2, as stated, fails: \<open>stop\<close> does not overwrite the stop row, it pushes a row of ones
  onto it. On a table of zeros a second \<open>stop\<close> makes the row hold twos, and \<open>is_stopped\<close>
  returns false after it.
\<close>

theorem stop_twice_counterexample:
  "bindE (bindE (shared_stop (sample_shared (zeros 7 2))) shared_stop)
     (\<lambda>c. bindE (shared_is_stopped c) (\<lambda>(b, c'). Inr b)) = Inr False"
  by (simp add: shared_stop_def shared_is_stopped_def shared_push_def shared_pull_def
      setitem_def getitem_def iadd_def slice_assign_def any_eq_one_row0_def
      broadcast_to_def norm_index_def add_rows_def expand_def nrows_def
      zeros_def ones_def full_def f32_add_0_1 f32_add_1_1 eval_nat_numeral)

text \<open>
  C2, amended. For every backend, \<open>stop\<close> adds 1 to every component of the stored stop
  row. When the stop row holds zeros, as it does in a fresh store, and rows have at least
  one component, \<open>is_stopped\<close> returns false before \<open>stop\<close> and true after one \<open>stop\<close>.
\<close>

theorem stop_then_is_stopped:
  assumes "shared_ok sc" and "torch_ok tc tbl" and "lapse_ok lc" and "distinct_cmds t"
    and "0 < dim sc" and "0 < dim tc" and "0 < key_size lc"
  shows "(\<exists>sc'. shared_stop sc = Inr sc'
            \<and> stop_row (parameters sc') (num_meta_keys sc)
                = map (\<lambda>x. f32_add x (Fin 1)) (stop_row (parameters sc) (num_meta_keys sc))
            \<and> (stop_row (parameters sc) (num_meta_keys sc) = replicate (dim sc) (Fin 0)
                 \<longrightarrow> (\<exists>sc''. shared_is_stopped sc = Inr (False, sc''))
                   \<and> (\<exists>sc''. shared_is_stopped sc' = Inr (True, sc''))))
    \<and> (\<exists>tbl'. run_server t (torch_stop t tc) (idle_server tbl) = Inr ((), idle_server tbl')
            \<and> stop_row tbl' (num_meta_keys tc)
                = map (\<lambda>x. f32_add x (Fin 1)) (stop_row tbl (num_meta_keys tc))
            \<and> (stop_row tbl (num_meta_keys tc) = replicate (dim tc) (Fin 0)
                 \<longrightarrow> (\<exists>tc'. run_server t (torch_is_stopped t tc) (idle_server tbl)
                              = Inr ((False, tc'), idle_server tbl))
                   \<and> (\<exists>tc'. run_server t (torch_is_stopped t tc) (idle_server tbl')
                              = Inr ((True, tc'), idle_server tbl'))))
    \<and> (\<exists>lc'. lapse_stop lc = Inr lc'
            \<and> stop_row (engine lc') (num_meta_keys lc)
                = map (\<lambda>x. f32_add x (Fin 1)) (stop_row (engine lc) (num_meta_keys lc))
            \<and> (stop_row (engine lc) (num_meta_keys lc) = replicate (key_size lc) (Fin 0)
                 \<longrightarrow> (\<exists>lc''. lapse_is_stopped lc = Inr (False, lc''))
                   \<and> (\<exists>lc''. lapse_is_stopped lc' = Inr (True, lc''))))"
proof -
  let ?sc' = "sc\<lparr>parameters := pushed (parameters sc) (shared_client.stop_key sc)
                                  (ones 1 (dim sc))\<rparr>"
  let ?tbl' = "pushed tbl (torch_client.stop_key tc) (ones 1 (dim tc))"
  let ?lc' = "lc\<lparr>engine := pushed (engine lc) (lapse_client.stop_key lc)
                              (ones 1 (key_size lc))\<rparr>"
  have s1: "stop_row (parameters ?sc') (num_meta_keys sc)
      = map (\<lambda>x. f32_add x (Fin 1)) (stop_row (parameters sc) (num_meta_keys sc))"
    using assms(1) stop_row_pushed [of "parameters sc" "num_meta_keys sc"]
    by (simp add: shared_ok_def)
  have s2: "stop_row (parameters sc) (num_meta_keys sc) = replicate (dim sc) (Fin 0)
      \<longrightarrow> (\<exists>sc''. shared_is_stopped sc = Inr (False, sc''))
        \<and> (\<exists>sc''. shared_is_stopped ?sc' = Inr (True, sc''))"
  proof
    assume z: "stop_row (parameters sc) (num_meta_keys sc) = replicate (dim sc) (Fin 0)"
    have "stop_row (pushed (parameters sc) (shared_client.stop_key sc) (ones 1 (dim sc)))
        (num_meta_keys sc) = replicate (dim sc) (Fin 1)"
      using assms(1) z stop_row_pushed_zero [of "parameters sc" "num_meta_keys sc"]
      by (simp add: shared_ok_def)
    then show "(\<exists>sc''. shared_is_stopped sc = Inr (False, sc''))
        \<and> (\<exists>sc''. shared_is_stopped ?sc' = Inr (True, sc''))"
      using shared_is_stopped_eq [OF assms(1)]
        shared_is_stopped_eq [OF shared_ok_stop [OF assms(1)]] z assms(5)
      by simp
  qed
  have t1: "stop_row ?tbl' (num_meta_keys tc)
      = map (\<lambda>x. f32_add x (Fin 1)) (stop_row tbl (num_meta_keys tc))"
    using assms(2) stop_row_pushed [of tbl "num_meta_keys tc"]
    by (simp add: torch_ok_def)
  have t2: "stop_row tbl (num_meta_keys tc) = replicate (dim tc) (Fin 0)
      \<longrightarrow> (\<exists>tc'. run_server t (torch_is_stopped t tc) (idle_server tbl)
                   = Inr ((False, tc'), idle_server tbl))
        \<and> (\<exists>tc'. run_server t (torch_is_stopped t tc) (idle_server ?tbl')
                   = Inr ((True, tc'), idle_server ?tbl'))"
  proof
    assume z: "stop_row tbl (num_meta_keys tc) = replicate (dim tc) (Fin 0)"
    have "stop_row ?tbl' (num_meta_keys tc) = replicate (dim tc) (Fin 1)"
      using assms(2) z stop_row_pushed_zero [of tbl "num_meta_keys tc"]
      by (simp add: torch_ok_def)
    then show "(\<exists>tc'. run_server t (torch_is_stopped t tc) (idle_server tbl)
                   = Inr ((False, tc'), idle_server tbl))
        \<and> (\<exists>tc'. run_server t (torch_is_stopped t tc) (idle_server ?tbl')
                   = Inr ((True, tc'), idle_server ?tbl'))"
      using torch_is_stopped_eq [OF assms(2), of t]
        torch_is_stopped_eq [OF torch_ok_stop [OF assms(2)], of t] z assms(6)
      by simp
  qed
  have l1: "stop_row (engine ?lc') (num_meta_keys lc)
      = map (\<lambda>x. f32_add x (Fin 1)) (stop_row (engine lc) (num_meta_keys lc))"
    using assms(3) stop_row_pushed [of "engine lc" "num_meta_keys lc"]
    by (simp add: lapse_ok_def)
  have l2: "stop_row (engine lc) (num_meta_keys lc) = replicate (key_size lc) (Fin 0)
      \<longrightarrow> (\<exists>lc''. lapse_is_stopped lc = Inr (False, lc''))
        \<and> (\<exists>lc''. lapse_is_stopped ?lc' = Inr (True, lc''))"
  proof
    assume z: "stop_row (engine lc) (num_meta_keys lc) = replicate (key_size lc) (Fin 0)"
    have "stop_row (pushed (engine lc) (lapse_client.stop_key lc) (ones 1 (key_size lc)))
        (num_meta_keys lc) = replicate (key_size lc) (Fin 1)"
      using assms(3) z stop_row_pushed_zero [of "engine lc" "num_meta_keys lc"]
      by (simp add: lapse_ok_def)
    then show "(\<exists>lc''. lapse_is_stopped lc = Inr (False, lc''))
        \<and> (\<exists>lc''. lapse_is_stopped ?lc' = Inr (True, lc''))"
      using lapse_is_stopped_eq [OF assms(3,7)]
        lapse_is_stopped_eq [OF lapse_ok_stop [OF assms(3)]] z assms(7)
      by simp
  qed
  show ?thesis
    using shared_stop_eq [OF assms(1)] s1 s2 torch_stop_eq [OF assms(2,4)] t1 t2
      lapse_stop_eq [OF assms(3)] l1 l2
    by blast
qed

theorem stop_then_is_stopped_witness:
  "(\<exists>sc' sc''. shared_stop (sample_shared (fresh_store 7 2)) = Inr sc'
        \<and> shared_is_stopped sc' = Inr (True, sc''))
   \<and> (\<exists>tbl' tc'. run_server sample_cmds (torch_stop sample_cmds sample_torch)
                   (idle_server (fresh_store 7 2)) = Inr ((), idle_server tbl')
        \<and> run_server sample_cmds (torch_is_stopped sample_cmds sample_torch)
              (idle_server tbl') = Inr ((True, tc'), idle_server tbl'))
   \<and> (\<exists>lc' lc''. lapse_stop (sample_lapse (fresh_store 7 2)) = Inr lc'
        \<and> lapse_is_stopped lc' = Inr (True, lc''))"
  using stop_then_is_stopped [OF sample_ok(1,2,3,4)]
  by (simp add: stop_row_fresh) blast

text \<open>
  C6, as stated, fails: the local-memory backend tests \<open>torch.any(row == 1)\<close>. With the
  stop row \<open>[0, 1]\<close> it returns true although the first component is 0.
\<close>

theorem is_stopped_first_component_counterexample:
  "bindE (shared_is_stopped (sample_shared mixed_stop_table)) (\<lambda>(b, c'). Inr b) = Inr True
   \<and> stop_row mixed_stop_table 5 ! 0 = Fin 0"
  by (simp add: shared_is_stopped_def shared_pull_def getitem_def slice_assign_def
      any_eq_one_row0_def broadcast_to_def norm_index_def expand_def nrows_def
      zeros_def full_def stop_row_def mixed_stop_table_def)

text \<open>
  C6, amended. On the local-memory and the command-protocol backend \<open>is_stopped\<close> returns
  true if and only if some component of the stored stop row equals 1; on the embedded-server
  backend, if and only if its first component equals 1.
\<close>

theorem is_stopped_iff:
  assumes "shared_ok sc" and "torch_ok tc tbl" and "lapse_ok lc" and "0 < key_size lc"
  shows "(\<exists>sc'. shared_is_stopped sc
             = Inr (Fin 1 \<in> set (stop_row (parameters sc) (num_meta_keys sc)), sc'))
    \<and> (\<exists>tc'. run_server t (torch_is_stopped t tc) (idle_server tbl)
             = Inr ((Fin 1 \<in> set (stop_row tbl (num_meta_keys tc)), tc'), idle_server tbl))
    \<and> (\<exists>lc'. lapse_is_stopped lc
             = Inr (stop_row (engine lc) (num_meta_keys lc) ! 0 = Fin 1, lc'))"
  using shared_is_stopped_eq [OF assms(1)] torch_is_stopped_eq [OF assms(2)]
    lapse_is_stopped_eq [OF assms(3,4)]
  by simp

theorem is_stopped_iff_witness:
  "(\<exists>sc'. shared_is_stopped (sample_shared (fresh_store 7 2)) = Inr (False, sc'))
   \<and> (\<exists>tc'. run_server sample_cmds (torch_is_stopped sample_cmds sample_torch)
               (idle_server (fresh_store 7 2)) = Inr ((False, tc'), idle_server (fresh_store 7 2)))
   \<and> (\<exists>lc'. lapse_is_stopped (sample_lapse (fresh_store 7 2)) = Inr (False, lc'))"
  using is_stopped_iff [OF sample_ok(1,2,3), of sample_cmds]
  by (simp add: stop_row_fresh)

section \<open>The command protocol\<close>

text \<open>
  C10. In the command-protocol backend, \<open>step_optim\<close> and \<open>get_step_optim\<close> send parameter
  index 0 when the group name is \<open>"entity"\<close> and 1 for every other name; the name is not
  validated and no error is raised: \<open>step_optim\<close> is one send of the header, and
  \<open>get_step_optim\<close> one send of the header and one receive, whose second element it returns.
\<close>

theorem step_optim_parameter_index:
  "torch_step_optim t c g =
     Send (server_rank c) (Longs [STEP_OPTIM_CMD t, if g = ''entity'' then 0 else 1]) (Return ())
   \<and> (\<exists>k. torch_get_step_optim t c g =
          Send (server_rank c) (Longs [GET_OPTIM_STEP_CMD t, if g = ''entity'' then 0 else 1])
            (Recv (server_rank c) k)
        \<and> k (Longs [a, b]) = Return b)"
  by (simp add: torch_step_optim_def torch_get_step_optim_def Let_def)

theorem step_optim_parameter_index_witness:
  "torch_step_optim sample_cmds sample_torch ''user'' = Send 0 (Longs [4, 1]) (Return ())
   \<and> torch_step_optim sample_cmds sample_torch ''entity'' = Send 0 (Longs [4, 0]) (Return ())"
  using step_optim_parameter_index [of sample_cmds sample_torch "''user''"]
    step_optim_parameter_index [of sample_cmds sample_torch "''entity''"]
  by (simp add: sample_defs)

text \<open>
  C4, as stated, fails: the claim makes the second header element the number of keys that
  follow, for every operation. \<open>step_optim("relation")\<close> sends the header
  \<open>[STEP_OPTIM_CMD, 1]\<close> and no key at all.
\<close>

theorem header_second_element_counterexample:
  "header (torch_step_optim sample_cmds sample_torch ''relation'') = Some [4, 1]
   \<and> keys_after_header (torch_step_optim sample_cmds sample_torch ''relation'') = 0"
  by (simp add: header_def keys_after_header_def torch_step_optim_def sample_defs)

text \<open>
  C4, amended. Every request of the command-protocol backend begins with a two-element
  integer header whose first element is the command code. For \<open>pull\<close>, \<open>push\<close> and \<open>set\<close> the
  second element is the number of keys, which are sent next; for \<open>shutdown\<close>, \<open>get_lr\<close> and
  \<open>set_lr\<close> it is 0 and no keys follow; for \<open>step_optim\<close> and \<open>get_step_optim\<close> it is the
  parameter index (0 for \<open>"entity"\<close>, 1 otherwise) and no keys follow. \<open>get_lr\<close> and \<open>set_lr\<close>
  send nothing when the command table has no attribute for the group name.
\<close>

theorem request_headers:
  "header (torch_pull t c keys buf) = Some [PULL_CMD t, int (length keys)]
   \<and> keys_after_header (torch_pull t c keys buf) = length keys
   \<and> header (torch_push t c keys v) = Some [PUSH_CMD t, int (length keys)]
   \<and> keys_after_header (torch_push t c keys v) = length keys
   \<and> header (torch_set t c keys v) = Some [SET_CMD t, int (length keys)]
   \<and> keys_after_header (torch_set t c keys v) = length keys
   \<and> header (torch_shutdown t c) = Some [SHUTDOWN_CMD t, 0]
   \<and> keys_after_header (torch_shutdown t c) = 0
   \<and> header (torch_step_optim t c g) = Some [STEP_OPTIM_CMD t, if g = ''entity'' then 0 else 1]
   \<and> keys_after_header (torch_step_optim t c g) = 0
   \<and> header (torch_get_step_optim t c g)
       = Some [GET_OPTIM_STEP_CMD t, if g = ''entity'' then 0 else 1]
   \<and> keys_after_header (torch_get_step_optim t c g) = 0
   \<and> header (torch_get_lr t upper c g)
       = (case getattr_cmds t (''GET_'' @ upper g @ ''_LR_CMD'') of
            Inl e \<Rightarrow> None | Inr code \<Rightarrow> Some [code, 0])
   \<and> keys_after_header (torch_get_lr t upper c g) = 0
   \<and> header (torch_set_lr t upper c g lr)
       = (case getattr_cmds t (''SET_'' @ upper g @ ''_LR_CMD'') of
            Inl e \<Rightarrow> None | Inr code \<Rightarrow> Some [code, 0])
   \<and> keys_after_header (torch_set_lr t upper c g lr) = 0"
  by (simp add: header_def keys_after_header_def torch_pull_def torch_push_def torch_set_def
      torch_shutdown_def torch_step_optim_def torch_get_step_optim_def torch_get_lr_def
      torch_set_lr_def Let_def split: sum.splits)

theorem request_headers_witness:
  "header (torch_pull sample_cmds sample_torch [3, 1, 4] None) = Some [0, 3]
   \<and> header (torch_step_optim sample_cmds sample_torch ''entity'') = Some [4, 0]
   \<and> header (torch_get_step_optim sample_cmds sample_torch ''relation'') = Some [5, 1]
   \<and> header (torch_get_lr sample_cmds (\<lambda>g. ''RELATION'') sample_torch ''relation'') = Some [7, 0]
   \<and> header (torch_set_lr sample_cmds (\<lambda>g. ''USER'') sample_torch ''user'' (Finite 0)) = None"
  using request_headers [where t = sample_cmds and c = sample_torch and keys = "[3, 1, 4]"
      and buf = None and v = "zeros 3 2" and g = "''entity''"
      and upper = "\<lambda>g. ''ENTITY''" and lr = "Finite 0"]
    request_headers [where t = sample_cmds and c = sample_torch and keys = "[3, 1, 4]"
      and buf = None and v = "zeros 3 2" and g = "''relation''"
      and upper = "\<lambda>g. ''RELATION''" and lr = "Finite 0"]
    request_headers [where t = sample_cmds and c = sample_torch and keys = "[3, 1, 4]"
      and buf = None and v = "zeros 3 2" and g = "''user''"
      and upper = "\<lambda>g. ''USER''" and lr = "Finite 0"]
  by (simp add: sample_cmds_def getattr_cmds_def)

section \<open>Localize\<close>

text \<open>
  C3. \<open>localize\<close> on the embedded-server backend raises \<open>NotImplementedError\<close>. On the
  command-protocol backend it returns without sending anything, so that whatever the peer
  stores is unchanged; on the local-memory backend it returns and the client, its table
  included, is unchanged.
\<close>

theorem localize_per_backend:
  "lapse_localize lc keys = Inl NotImplementedError
   \<and> run deliver fetch (torch_localize tc keys) s = Inr ((), s)
   \<and> shared_localize sc keys = Inr sc"
  by (simp add: lapse_localize_def torch_localize_def shared_localize_def)

section \<open>Pull without a buffer\<close>

text \<open>
  C5. \<open>pull(keys)\<close> without a buffer should allocate one and return the pulled rows.
  \<open>TorchParameterClient.pull\<close> allocates the buffer and receives the rows into it, but has
  no \<open>return\<close>: with the row \<open>[5, 7]\<close> stored under key 0, the call returns \<open>None\<close> and
  hands no buffer back. \<open>SharedParameterClient.pull\<close> has no default for the buffer and
  raises \<open>TypeError\<close>.
\<close>

theorem pull_without_buffer:
  "run_server sample_cmds (torch_pull sample_cmds sample_torch [0] None)
       (idle_server \<lparr>ncols = 2, rows = [[Fin 5, Fin 7]]\<rparr>)
     = Inr ((None, None), idle_server \<lparr>ncols = 2, rows = [[Fin 5, Fin 7]]\<rparr>)
   \<and> shared_pull (sample_shared \<lparr>ncols = 2, rows = [[Fin 5, Fin 7]]\<rparr>) [0] None = Inl TypeError"
  by (simp add: run_torch_pull spec_pull_def valid_keys_def shared_pull_def nrows_def
      zeros_def full_def)

section \<open>The concrete scenario\<close>

lemma scenario_construction:
  assumes "lookup_embedder_dim cfg = 100" and "get_optimizer_dim cfg 100 = 0"
    and "get_num_meta_keys cfg = 5" and "nrows buf = 1" and "ncols buf = 100"
    and "c = SharedParameterClient_init get_optimizer_dim get_num_meta_keys cfg rnk
               (fresh_store 107 100)"
  shows "dim c = 100 \<and> num_meta_keys c = 5 \<and> shared_client.num_keys c = 107
    \<and> shared_client.stop_key c = [102]
    \<and> shared_client.optim_entity_step_key c = [103]
    \<and> shared_client.optim_relation_step_key c = [104]
    \<and> shared_client.entity_lr_key c = [105]
    \<and> shared_client.relation_lr_key c = [106]
    \<and> shared_pull c [102] (Some buf) = Inr (None, zeros 1 100)"
proof -
  have fields: "dim c = 100 \<and> num_meta_keys c = 5 \<and> shared_client.num_keys c = 107
    \<and> shared_client.stop_key c = [102]
    \<and> shared_client.optim_entity_step_key c = [103]
    \<and> shared_client.optim_relation_step_key c = [104]
    \<and> shared_client.entity_lr_key c = [105]
    \<and> shared_client.relation_lr_key c = [106]"
    using assms(1,2,3,6)
    by (simp add: SharedParameterClient_init_def KgeParameterClient_init_def
        kge_client.extend_def shared_client.fields_def Let_def)
  have params: "parameters c = fresh_store 107 100"
    using assms(6)
    by (simp add: SharedParameterClient_init_def KgeParameterClient_init_def
        kge_client.extend_def shared_client.fields_def Let_def)
  have "shaped (nrows buf) (ncols buf) (zeros 1 100)"
    using assms(4,5) by simp
  then have "slice_assign buf (zeros 1 100) = Inr (zeros 1 100)"
    by (rule slice_assign_shaped)
  then have "shared_pull c [102] (Some buf) = Inr (None, zeros 1 100)"
    using params by (simp add: shared_pull_def getitem_fresh)
  with fields show ?thesis by simp
qed

text \<open>
  C7. With \<open>num_keys = 107\<close> (a table of 107 rows), five meta keys, embedding dimension 100
  and optimizer dimension 0, construction yields \<open>dim = 100\<close> and the meta keys 102, 103,
  104, 105, 106 for stop, optim_entity_step, optim_relation_step, entity_lr and relation_lr,
  as the claim says. \<open>pull([102])\<close> on the fresh store should return a zero vector of length
  100; \<open>SharedParameterClient.pull\<close> has no default for the buffer and the call raises
  \<open>TypeError\<close>. The zero row is there: it arrives in a buffer of shape \<open>(1, 100)\<close> when the
  caller passes one, and the call still returns \<open>None\<close>.
\<close>

theorem concrete_scenario_pull:
  "dim scenario_client = 100 \<and> num_meta_keys scenario_client = 5
   \<and> shared_client.num_keys scenario_client = 107
   \<and> shared_client.stop_key scenario_client = [102]
   \<and> shared_client.optim_entity_step_key scenario_client = [103]
   \<and> shared_client.optim_relation_step_key scenario_client = [104]
   \<and> shared_client.entity_lr_key scenario_client = [105]
   \<and> shared_client.relation_lr_key scenario_client = [106]
   \<and> shared_pull scenario_client [102] None = Inl TypeError
   \<and> shared_pull scenario_client [102] (Some (ones 1 100)) = Inr (None, zeros 1 100)"
proof -
  have buf: "nrows (ones 1 100) = 1" "ncols (ones 1 100) = 100"
    by (simp_all add: ones_def)
  have "lookup_embedder_dim \<lparr>lookup_embedder_dim = 100\<rparr> = 100"
    and "no_optimizer_dim \<lparr>lookup_embedder_dim = 100\<rparr> 100 = 0"
    and "five_meta_keys \<lparr>lookup_embedder_dim = 100\<rparr> = 5"
    by (simp_all add: no_optimizer_dim_def five_meta_keys_def)
  then have built: "dim scenario_client = 100 \<and> num_meta_keys scenario_client = 5
    \<and> shared_client.num_keys scenario_client = 107
    \<and> shared_client.stop_key scenario_client = [102]
    \<and> shared_client.optim_entity_step_key scenario_client = [103]
    \<and> shared_client.optim_relation_step_key scenario_client = [104]
    \<and> shared_client.entity_lr_key scenario_client = [105]
    \<and> shared_client.relation_lr_key scenario_client = [106]
    \<and> shared_pull scenario_client [102] (Some (ones 1 100)) = Inr (None, zeros 1 100)"
    using buf scenario_client_def by (rule scenario_construction)
  have "shared_pull scenario_client [102] None = Inl TypeError"
    by (simp add: shared_pull_def)
  with built show ?thesis by simp
qed

section \<open>Set, then pull\<close>

text \<open>
  C8, as stated, fails: the claim admits any non-empty list of keys inside the table. With
  the key 0 twice and the rows \<open>[1, 2]\<close> and \<open>[3, 4]\<close>, the later write stays and \<open>pull\<close>
  yields \<open>[3, 4]\<close> twice.
\<close>

theorem set_pull_duplicate_keys_counterexample:
  "bindE (shared_set (sample_shared (zeros 7 2)) [0, 0] sample_rows)
     (\<lambda>c. shared_pull c [0, 0] (Some (zeros 2 2)))
   = Inr (None, \<lparr>ncols = 2, rows = [[Fin 3, Fin 4], [Fin 3, Fin 4]]\<rparr>)"
  by (simp add: shared_set_def shared_pull_def setitem_def getitem_def slice_assign_def
      broadcast_to_def norm_index_def sample_rows_def expand_def nrows_def
      fresh_store_def zeros_def full_def)

text \<open>
  C8, amended. For every backend, for keys inside the table without duplicates and rows of
  shape \<open>(len(keys), D)\<close>, \<open>set(keys, rows)\<close> followed by \<open>pull(keys, buffer)\<close> with a
  buffer of that shape leaves exactly \<open>rows\<close> in the buffer.
\<close>

theorem set_then_pull:
  assumes "valid_keys tbl keys" and "distinct keys"
    and "shaped (length keys) (ncols tbl) rws" and "shaped (length keys) (ncols tbl) buf"
    and "parameters sc = tbl" and "engine lc = tbl" and "distinct_cmds t"
  shows "(\<exists>sc'. shared_set sc keys rws = Inr sc'
            \<and> shared_pull sc' keys (Some buf) = Inr (None, rws))
    \<and> (\<exists>tbl'. run_server t (bind_io (torch_set t tc keys rws)
                               (\<lambda>u. torch_pull t tc keys (Some buf))) (idle_server tbl)
            = Inr ((None, Some rws), idle_server tbl'))
    \<and> (\<exists>lc'. lapse_set lc keys rws = Inr lc'
            \<and> lapse_pull garbage lc' keys (Some buf) = Inr (Some rws, rws))"
proof -
  let ?tbl' = "tbl\<lparr>rows := put_rows (rows tbl) (map nat keys) (rows rws)\<rparr>"
  have again: "pulled ?tbl' keys = rws"
    using assms(1,2,3) by (rule pulled_after_set)
  have valid': "valid_keys ?tbl' keys"
    using assms(1) by simp
  have fits: "shaped (nrows buf) (ncols buf) rws"
    using assms(3,4) by (rule shaped_same [rotated])
  have shape: "nrows rws = nrows buf" "ncols rws = ncols buf"
    using fits by (simp_all add: shaped_def)
  have "shared_set sc keys rws = Inr (sc\<lparr>parameters := ?tbl'\<rparr>)"
    using assms by (simp add: shared_set_def setitem_valid)
  moreover have "shared_pull (sc\<lparr>parameters := ?tbl'\<rparr>) keys (Some buf) = Inr (None, rws)"
    using valid' again fits by (simp add: shared_pull_def getitem_valid slice_assign_shaped)
  moreover have "run_server t (bind_io (torch_set t tc keys rws)
        (\<lambda>u. torch_pull t tc keys (Some buf))) (idle_server tbl)
      = Inr ((None, Some rws), idle_server ?tbl')"
    using assms(1,3,7) valid' again shape
    by (simp add: run_server_bind_io run_torch_set run_torch_pull spec_set_eq spec_pull_valid)
  moreover have "lapse_set lc keys rws = Inr (lc\<lparr>engine := ?tbl'\<rparr>)"
    using assms by (simp add: lapse_set_def worker_set_def spec_set_eq)
  moreover have "lapse_pull garbage (lc\<lparr>engine := ?tbl'\<rparr>) keys (Some buf) = Inr (Some rws, rws)"
    using valid' again assms(4)
    by (simp add: lapse_pull_def worker_pull_def spec_pull_valid)
  ultimately show ?thesis by blast
qed

theorem set_then_pull_witness:
  "(\<exists>sc'. shared_set (sample_shared (fresh_store 7 2)) [0, 3] sample_rows = Inr sc'
        \<and> shared_pull sc' [0, 3] (Some (zeros 2 2)) = Inr (None, sample_rows))
   \<and> (\<exists>tbl'. run_server sample_cmds
                (bind_io (torch_set sample_cmds sample_torch [0, 3] sample_rows)
                   (\<lambda>u. torch_pull sample_cmds sample_torch [0, 3] (Some (zeros 2 2))))
                (idle_server (fresh_store 7 2))
              = Inr ((None, Some sample_rows), idle_server tbl'))
   \<and> (\<exists>lc'. lapse_set (sample_lapse (fresh_store 7 2)) [0, 3] sample_rows = Inr lc'
        \<and> lapse_pull (\<lambda>i j. NaN) lc' [0, 3] (Some (zeros 2 2))
            = Inr (Some sample_rows, sample_rows))"
proof -
  have 1: "valid_keys (fresh_store 7 2) [0, 3]"
    by (simp add: valid_keys_def)
  have 2: "distinct [0, 3 :: int]"
    by simp
  have 3: "shaped (length [0, 3 :: int]) (ncols (fresh_store 7 2)) sample_rows"
    by (simp add: shaped_def sample_rows_def nrows_def wf_tensor_def)
  have len: "length [0, 3 :: int] = 2"
    by simp
  have 4: "shaped (length [0, 3 :: int]) (ncols (fresh_store 7 2)) (zeros 2 2)"
    unfolding len shape_fresh by (rule shaped_zeros)
  show ?thesis
    using set_then_pull [OF 1 2 3 4 _ _ sample_ok(4), of "sample_shared (fresh_store 7 2)"
        "sample_lapse (fresh_store 7 2)" sample_torch "\<lambda>i j. NaN"]
    by simp
qed

section \<open>Push, then push\<close>

text \<open>
  C9, as stated, fails: rows hold 32-bit floats, whose addition rounds. On the stored value
  \<open>2 ^ 24\<close> two pushes of 1 leave \<open>2 ^ 24\<close>, each sum being rounded back, while one push of
  \<open>1 + 1\<close> leaves \<open>2 ^ 24 + 2\<close>.
\<close>

theorem push_push_rounding_counterexample:
  "bindE (bindE (shared_push (sample_shared big_table) [0] unit_push)
            (\<lambda>c. shared_push c [0] unit_push))
     (\<lambda>c. Inr (rows (parameters c) ! 0)) = Inr [Fin 16777216, Fin 0]
   \<and> bindE (shared_push (sample_shared big_table) [0] (tensor_add unit_push unit_push))
       (\<lambda>c. Inr (rows (parameters c) ! 0)) = Inr [Fin 16777218, Fin 0]"
  by (simp add: shared_push_def setitem_def getitem_def iadd_def
      broadcast_to_def norm_index_def big_table_def unit_push_def tensor_add_def add_rows_def
      expand_def nrows_def f32_add_0_0 f32_add_1_1 f32_add_big_1 f32_add_big_2)

text \<open>
  C9, amended. For every backend, for keys inside the table without duplicates and rows
  \<open>a\<close>, \<open>b\<close> of shape \<open>(len(keys), D)\<close>, \<open>push(keys, a)\<close> followed by \<open>push(keys, b)\<close>
  leaves the store in the same state as the single \<open>push(keys, a + b)\<close>, provided that
  at every position the float sums agree, \<open>(x + a) + b = x + (a + b)\<close> for the stored
  value \<open>x\<close>, as they do when no sum is rounded: for instance when the values are integers
  and \<open>\<bar>x\<bar> + \<bar>a\<bar> + \<bar>b\<bar> \<le> 2 ^ 24\<close> at every position (\<open>sums_exact_ints\<close>).
\<close>

theorem push_push_is_push_of_sum:
  assumes "valid_keys tbl keys" and "distinct keys" and "wf_tensor tbl"
    and "shaped (length keys) (ncols tbl) a" and "shaped (length keys) (ncols tbl) b"
    and "sums_exact (rows (pulled tbl keys)) (rows a) (rows b)"
    and "parameters sc = tbl" and "engine lc = tbl" and "distinct_cmds t"
  shows "(\<exists>sc'. bindE (shared_push sc keys a) (\<lambda>sc1. shared_push sc1 keys b) = Inr sc'
            \<and> shared_push sc keys (tensor_add a b) = Inr sc')
    \<and> (\<exists>s'. run_server t (bind_io (torch_push t tc keys a) (\<lambda>u. torch_push t tc keys b))
                 (idle_server tbl) = Inr ((), s')
            \<and> run_server t (torch_push t tc keys (tensor_add a b)) (idle_server tbl)
                = Inr ((), s'))
    \<and> (\<exists>lc'. bindE (lapse_push lc keys a) (\<lambda>lc1. lapse_push lc1 keys b) = Inr lc'
            \<and> lapse_push lc keys (tensor_add a b) = Inr lc')"
proof -
  let ?t1 = "pushed tbl keys a"
  have twice: "pushed ?t1 keys b = pushed tbl keys (tensor_add a b)"
    using assms(1-6) by (rule pushed_pushed)
  have sum: "shaped (length keys) (ncols tbl) (tensor_add a b)"
    using assms(4,5) by (rule shaped_tensor_add)
  have wf1: "wf_tensor ?t1"
    using assms(1,3,4) by (rule wf_pushed)
  have "bindE (shared_push sc keys a) (\<lambda>sc1. shared_push sc1 keys b)
      = Inr (sc\<lparr>parameters := pushed tbl keys (tensor_add a b)\<rparr>)"
    using assms(1,3,4,5,7) wf1 twice by (simp add: shared_push_eq)
  moreover have "shared_push sc keys (tensor_add a b)
      = Inr (sc\<lparr>parameters := pushed tbl keys (tensor_add a b)\<rparr>)"
    using assms(1,3,7) sum by (simp add: shared_push_eq)
  moreover have "run_server t (bind_io (torch_push t tc keys a) (\<lambda>u. torch_push t tc keys b))
        (idle_server tbl) = Inr ((), idle_server (pushed tbl keys (tensor_add a b)))"
    using assms(1,2,4,5,9) twice
    by (simp add: run_server_bind_io run_torch_push spec_push_eq)
  moreover have "run_server t (torch_push t tc keys (tensor_add a b)) (idle_server tbl)
      = Inr ((), idle_server (pushed tbl keys (tensor_add a b)))"
    using assms(1,2,9) sum by (simp add: run_torch_push spec_push_eq)
  moreover have "bindE (lapse_push lc keys a) (\<lambda>lc1. lapse_push lc1 keys b)
      = Inr (lc\<lparr>engine := pushed tbl keys (tensor_add a b)\<rparr>)"
    using assms(1,2,4,5,8) twice by (simp add: lapse_push_def worker_push_def spec_push_eq)
  moreover have "lapse_push lc keys (tensor_add a b)
      = Inr (lc\<lparr>engine := pushed tbl keys (tensor_add a b)\<rparr>)"
    using assms(1,2,8) sum by (simp add: lapse_push_def worker_push_def spec_push_eq)
  ultimately show ?thesis by blast
qed

theorem push_push_is_push_of_sum_witness:
  "(\<exists>sc'. bindE (shared_push (sample_shared (fresh_store 7 2)) [0, 3] (ones 2 2))
              (\<lambda>sc1. shared_push sc1 [0, 3] (ones 2 2)) = Inr sc'
        \<and> shared_push (sample_shared (fresh_store 7 2)) [0, 3]
              (tensor_add (ones 2 2) (ones 2 2)) = Inr sc')
   \<and> (\<exists>s'. run_server sample_cmds
               (bind_io (torch_push sample_cmds sample_torch [0, 3] (ones 2 2))
                  (\<lambda>u. torch_push sample_cmds sample_torch [0, 3] (ones 2 2)))
               (idle_server (fresh_store 7 2)) = Inr ((), s')
        \<and> run_server sample_cmds
              (torch_push sample_cmds sample_torch [0, 3] (tensor_add (ones 2 2) (ones 2 2)))
              (idle_server (fresh_store 7 2)) = Inr ((), s'))
   \<and> (\<exists>lc'. bindE (lapse_push (sample_lapse (fresh_store 7 2)) [0, 3] (ones 2 2))
              (\<lambda>lc1. lapse_push lc1 [0, 3] (ones 2 2)) = Inr lc'
        \<and> lapse_push (sample_lapse (fresh_store 7 2)) [0, 3]
              (tensor_add (ones 2 2) (ones 2 2)) = Inr lc')"
proof -
  have 1: "valid_keys (fresh_store 7 2) [0, 3]"
    by (simp add: valid_keys_def)
  have 2: "distinct [0, 3 :: int]"
    by simp
  have 3: "wf_tensor (fresh_store 7 2)"
    by simp
  have len: "length [0, 3 :: int] = 2"
    by simp
  have 4: "shaped (length [0, 3 :: int]) (ncols (fresh_store 7 2)) (ones 2 2)"
    unfolding len shape_fresh by (rule shaped_ones)
  have "sums_exact (map (map (\<lambda>n. Fin (of_int n))) [[0, 0], [0, 0]])
      (map (map (\<lambda>n. Fin (of_int n))) [[1, 1], [1, 1]])
      (map (map (\<lambda>n. Fin (of_int n))) [[1, 1], [1, 1]])"
    by (rule sums_exact_ints) simp
  then have 5: "sums_exact (rows (pulled (fresh_store 7 2) [0, 3])) (rows (ones 2 2))
      (rows (ones 2 2))"
    by (simp add: pulled_def fresh_store_def zeros_def ones_def full_def eval_nat_numeral)
  show ?thesis
    using push_push_is_push_of_sum [OF 1 2 3 4 4 5 _ _ sample_ok(4),
        of "sample_shared (fresh_store 7 2)" "sample_lapse (fresh_store 7 2)" sample_torch]
    by simp
qed

end
